theory Spec2Isabelle
  imports Main "HOL-Library.Word"
begin

section \<open>Errors and basic types\<close>

text \<open>
  Every \<^verbatim>\<open>throw std::runtime_error(msg)\<close> of ProcessGroupNCCL.cpp is the value
  \<open>RuntimeError msg\<close>, a failed \<^verbatim>\<open>TORCH_CHECK\<close> or \<^verbatim>\<open>TORCH_INTERNAL_ASSERT\<close> is
  \<open>TorchCheckFailed\<close>, an exception thrown inside the tensor runtime is \<open>IndexError\<close>,
  and an execution that leaves defined behaviour (a null \<^verbatim>\<open>shared_ptr\<close> dereferenced, an
  integer division by zero) is \<open>UndefinedBehaviour\<close>.
\<close>

datatype error =
    RuntimeError string
  | TorchCheckFailed string
  | IndexError string
  | UndefinedBehaviour string

type_synonym byte = "8 word"
type_synonym int32_t = "32 word"
type_synonym int64_t = "64 word"

section \<open>Unique ids and store keys\<close>

text \<open>\<^verbatim>\<open>constexpr const char* const kNCCLAbortedCommStoreKey = "NCCLABORTEDCOMM"\<close>\<close>

definition kNCCLAbortedCommStoreKey :: string where
  "kNCCLAbortedCommStoreKey = ''NCCLABORTEDCOMM''"

text \<open>
  The width of a \<^verbatim>\<open>ncclUniqueId\<close> comes from the vendor header nccl.h, which defines
  \<^verbatim>\<open>NCCL_UNIQUE_ID_BYTES\<close> as 128. Only the concrete cases below use the number.
\<close>

definition NCCL_UNIQUE_ID_BYTES :: nat where
  "NCCL_UNIQUE_ID_BYTES = 128"

text \<open>A \<^verbatim>\<open>ncclUniqueId\<close> is read through \<^verbatim>\<open>reinterpret_cast<const uint8_t*>\<close>: a byte array.\<close>

type_synonym ncclUniqueId = "byte list"

definition hex_digit :: "nat \<Rightarrow> char" where
  "hex_digit d = ''0123456789abcdef'' ! d"

text \<open>
  \<^verbatim>\<open>oss << std::hex << static_cast<int>(b)\<close> for a non-negative \<^verbatim>\<open>int\<close>: the digits of
  the value in base 16, lower case (\<^verbatim>\<open>std::uppercase\<close> is off), no \<^verbatim>\<open>0x\<close>
  (\<^verbatim>\<open>std::showbase\<close> is off), no padding (no \<^verbatim>\<open>std::setw\<close>, no \<^verbatim>\<open>std::setfill\<close>).
\<close>

function ostream_hex :: "nat \<Rightarrow> string" where
  "ostream_hex n =
     (if n < 16 then [hex_digit n] else ostream_hex (n div 16) @ [hex_digit (n mod 16)])"
  by pat_completeness auto
termination
  by (relation "measure (\<lambda>n. n)") auto

declare ostream_hex.simps [simp del]

definition buildNcclUniqueIdStr :: "ncclUniqueId \<Rightarrow> string" where
  "buildNcclUniqueIdStr ncclID =
     fold (\<lambda>i oss. oss @ ostream_hex (unat (ncclID ! i))) [0..<NCCL_UNIQUE_ID_BYTES] []"

definition getNcclAbortedCommStoreKey :: "string \<Rightarrow> string" where
  "getNcclAbortedCommStoreKey ncclIdStr = kNCCLAbortedCommStoreKey @ '':'' @ ncclIdStr"

text \<open>
  The key schema in the specification's words. A UniqueId is a byte blob of fixed width and
  its hex string is its identity in the store and in the reverse index: the lower-case
  hexadecimal representation of a byte is its two hexadecimal digits.
\<close>

definition lower_hex_of_byte :: "byte \<Rightarrow> string" where
  "lower_hex_of_byte b = [hex_digit (unat b div 16), hex_digit (unat b mod 16)]"

definition abort_marker_key_spec :: "ncclUniqueId \<Rightarrow> string" where
  "abort_marker_key_spec ncclID = ''NCCLABORTEDCOMM:'' @ concat (map lower_hex_of_byte ncclID)"

section \<open>Tensors\<close>

datatype ScalarType =
  kByte | kChar | kShort | kInt | kLong | kHalf | kFloat | kDouble | kBool

text \<open>
  What this file reads of an \<^verbatim>\<open>at::Tensor\<close>. \<open>storage\<close> is the identity of the
  \<^verbatim>\<open>StorageImpl\<close> the tensor points to: \<^verbatim>\<open>a.storage().is_alias_of(b.storage())\<close> holds
  when both are the same object. Sizes, offsets and element counts are \<^verbatim>\<open>int64_t\<close> and
  never negative.
\<close>

record Tensor =
  is_cuda :: bool
  is_sparse :: bool
  scalar_type :: ScalarType
  sizes :: "int list"
  is_contiguous :: bool
  get_device :: int
  storage :: nat
  storage_offset :: int

definition numel :: "Tensor \<Rightarrow> int" where
  "numel t = prod_list (sizes t)"

definition is_alias_of :: "nat \<Rightarrow> nat \<Rightarrow> bool" where
  "is_alias_of a b = (a = b)"

text \<open>\<^verbatim>\<open>tensor.size(0)\<close>: the tensor runtime throws for a tensor of dimension 0.\<close>

definition size0 :: "Tensor \<Rightarrow> error + int" where
  "size0 t = (case sizes t of
       [] \<Rightarrow> Inl (IndexError ''Dimension out of range'')
     | d # _ \<Rightarrow> Inr d)"

section \<open>Validation of split sizes\<close>

text \<open>
  \<^verbatim>\<open>int sum = std::accumulate(split_sizes.begin(), split_sizes.end(), 0)\<close>: the accumulator
  has the type of the literal \<^verbatim>\<open>0\<close>, which is \<^verbatim>\<open>int\<close>. Each step computes
  \<^verbatim>\<open>acc + *it\<close> in \<^verbatim>\<open>int64_t\<close> and stores it back into the \<^verbatim>\<open>int\<close>, keeping the low
  32 bits.
\<close>

definition accumulate_int :: "int64_t list \<Rightarrow> int32_t" where
  "accumulate_int split_sizes =
     fold (\<lambda>x acc. ucast ((scast acc :: int64_t) + x)) split_sizes 0"

text \<open>The remainder of C++ \<^verbatim>\<open>%\<close> on integers truncates towards zero.\<close>

definition cpp_rem :: "int \<Rightarrow> int \<Rightarrow> int" where
  "cpp_rem a b = sgn a * (\<bar>a\<bar> mod \<bar>b\<bar>)"

text \<open>
  \<open>group_size\<close> is an \<^verbatim>\<open>int\<close>; \<^verbatim>\<open>split_sizes.size() != group_size\<close> compares it as a
  \<^verbatim>\<open>size_t\<close>, that is modulo \<open>2 ^ 64\<close>.
\<close>

definition checkSplitSizes :: "int64_t list \<Rightarrow> Tensor \<Rightarrow> int \<Rightarrow> error + unit" where
  "checkSplitSizes split_sizes tensor group_size =
     (if length split_sizes = 0 then
        (case size0 tensor of
           Inl e \<Rightarrow> Inl e
         | Inr d \<Rightarrow>
             if group_size = 0 then Inl (UndefinedBehaviour ''integer division by zero'')
             else if cpp_rem d group_size \<noteq> 0 then
               Inl (RuntimeError ''Tensor's dim 0 does not divide equally across group size'')
             else Inr ())
      else if int (length split_sizes) \<noteq> group_size mod 2 ^ 64 then
        Inl (RuntimeError ''Number of tensor splits not equal to group size'')
      else
        (let sum = accumulate_int split_sizes in
         case size0 tensor of
           Inl e \<Rightarrow> Inl e
         | Inr d \<Rightarrow>
             if sint sum \<noteq> d then
               Inl (RuntimeError ''Split sizes doesn't match total dim 0 size'')
             else Inr ()))"

section \<open>Validation of tensor lists\<close>

text \<open>
  The loop of \<^verbatim>\<open>check_gpu_tensors_multi\<close> over the tensors; \<open>usedDevices\<close> is the
  \<^verbatim>\<open>std::unordered_set\<close> of device indices seen so far.
\<close>

fun check_gpu_tensors_loop ::
  "Tensor \<Rightarrow> bool \<Rightarrow> Tensor list \<Rightarrow> int list \<Rightarrow> error + unit" where
  "check_gpu_tensors_loop first alltoallv [] usedDevices = Inr ()"
| "check_gpu_tensors_loop first alltoallv (t # ts) usedDevices =
     (if \<not> is_cuda t \<or> is_sparse t then
        Inl (RuntimeError ''Tensors must be CUDA and dense'')
      else if scalar_type t \<noteq> scalar_type first then
        Inl (RuntimeError ''Tensors must have identical type'')
      else if \<not> alltoallv \<and> sizes t \<noteq> sizes first then
        Inl (RuntimeError ''Tensors must have identical size'')
      else if \<not> is_contiguous t then
        Inl (RuntimeError ''Tensors must be contiguous'')
      else if \<not> alltoallv then
        (if get_device t \<in> set usedDevices then
           Inl (RuntimeError ''Tensors must be on distinct GPU devices'')
         else check_gpu_tensors_loop first alltoallv ts (get_device t # usedDevices))
      else check_gpu_tensors_loop first alltoallv ts usedDevices)"

text \<open>\<open>numGPUs\<close> is the value of \<^verbatim>\<open>at::cuda::getNumGPUs()\<close>.\<close>

definition check_gpu_tensors_multi :: "nat \<Rightarrow> Tensor list \<Rightarrow> bool \<Rightarrow> error + unit" where
  "check_gpu_tensors_multi numGPUs tensors alltoallv =
     (if length tensors = 0 then Inl (RuntimeError ''Tensor list must be nonempty'')
      else if \<not> alltoallv \<and> length tensors > numGPUs then
        Inl (RuntimeError ''Tensor list mustn't be larger than the number of available GPUs'')
      else check_gpu_tensors_loop (hd tensors) alltoallv tensors [])"

definition check_gpu_tensors :: "nat \<Rightarrow> Tensor list \<Rightarrow> error + unit" where
  "check_gpu_tensors numGPUs tensors = check_gpu_tensors_multi numGPUs tensors False"

section \<open>Flattening for scatter and gather\<close>

text \<open>
  Offsets are compared after the usual arithmetic conversions: \<open>j\<close> and \<open>rank\<close> are
  \<^verbatim>\<open>size_t\<close>, so both sides are taken modulo \<open>2 ^ 64\<close>.
\<close>

definition u64 :: "int \<Rightarrow> int" where
  "u64 x = x mod 2 ^ 64"

text \<open>
  The loop over \<open>j\<close> under \<^verbatim>\<open>if (no_copy)\<close>: \<open>False\<close> when some tensor of the list makes
  it set \<^verbatim>\<open>no_copy = false\<close> and \<^verbatim>\<open>break\<close>, \<open>True\<close> when it runs to the end.
\<close>

fun no_copy_views :: "Tensor \<Rightarrow> Tensor list \<Rightarrow> nat \<Rightarrow> bool" where
  "no_copy_views t0 [] j = True"
| "no_copy_views t0 (t # ts) j =
     (if \<not> is_alias_of (storage t) (storage t0) \<or>
         u64 (storage_offset t) \<noteq> u64 (storage_offset t0 + int j * numel t0)
      then False
      else no_copy_views t0 ts (Suc j))"

text \<open>The value of \<^verbatim>\<open>no_copy\<close> after both checks for one device, when it was true before.\<close>

definition no_copy_device :: "Tensor list \<Rightarrow> Tensor \<Rightarrow> nat \<Rightarrow> bool" where
  "no_copy_device tensor_list other_i rank =
     (let no_copy = no_copy_views (tensor_list ! 0) tensor_list 0 in
      if is_alias_of (storage other_i) (storage (tensor_list ! 0)) \<and>
         u64 (storage_offset other_i) \<noteq>
           u64 (storage_offset (tensor_list ! 0) + int rank * numel (tensor_list ! 0))
      then False
      else no_copy)"

text \<open>
  \<^verbatim>\<open>at::empty({0}, other[i].options()).set_(storage, offset, world_size * numel, {})\<close>: a
  contiguous one-dimensional tensor on the storage of the first tensor of the list.
\<close>

definition flat_view :: "Tensor \<Rightarrow> Tensor \<Rightarrow> nat \<Rightarrow> Tensor" where
  "flat_view t0 other_i world_size =
     other_i\<lparr> sizes := [u64 (int world_size * numel other_i)],
              is_contiguous := True,
              storage := storage t0,
              storage_offset := storage_offset t0 \<rparr>"

text \<open>
  Modelled from the spec: \<^verbatim>\<open>newLikeFlat\<close> is declared in c10d/Utils.hpp, which is not
  among the sources. The specification describes its result as a fresh flat allocation, one
  staging tensor per device of \<open>world_size * other[i].numel\<close> elements, and requires all
  tensors of the list on one device. A fresh allocation has a storage that no existing
  tensor has: \<open>fresh_storage used\<close> is an identity above every one in \<open>used\<close>.
\<close>

definition fresh_storage :: "nat list \<Rightarrow> nat" where
  "fresh_storage used = Suc (fold max used 0)"

definition newLikeFlat :: "Tensor list \<Rightarrow> Tensor \<Rightarrow> nat \<Rightarrow> nat list \<Rightarrow> error + Tensor" where
  "newLikeFlat tensor_list other_i world_size used =
     (if list_ex (\<lambda>t. get_device t \<noteq> get_device (tensor_list ! 0)) tensor_list then
        Inl (RuntimeError ''Expecting all tensors on the same device'')
      else
        Inr ((tensor_list ! 0)\<lparr> sizes := [u64 (int world_size * numel other_i)],
                                is_contiguous := True,
                                storage := fresh_storage used,
                                storage_offset := 0 \<rparr>))"

text \<open>
  The body of the loop over the devices, on the remaining pairs of \<open>tensor_lists[i]\<close> and
  \<open>other[i]\<close>. \<open>no_copy\<close> is the function's parameter, which the loop body assigns; \<open>used\<close>
  holds the storages in existence, for \<open>newLikeFlat\<close>. \<^verbatim>\<open>tensor_lists[i].front()\<close> on an
  empty vector is undefined behaviour.
\<close>

fun flatten_loop ::
  "nat \<Rightarrow> nat \<Rightarrow> nat \<Rightarrow> (Tensor list \<times> Tensor) list \<Rightarrow> bool \<Rightarrow> nat list \<Rightarrow> error + Tensor list"
  where
  "flatten_loop world_size rank num_devices [] no_copy used = Inr []"
| "flatten_loop world_size rank num_devices ((tensor_list, other_i) # rest) no_copy used =
     (if int (length tensor_list) \<noteq> u64 (int world_size * int num_devices) then
        Inl (RuntimeError
          ''Tensor list input to scatter/gather must match number of collective participants'')
      else if tensor_list = [] then
        Inl (UndefinedBehaviour ''front() of an empty vector'')
      else if get_device (hd tensor_list) \<noteq> get_device other_i then
        Inl (RuntimeError
          ''Corresponding input/output tensors to scatter/gather must all reside on the same device'')
      else if list_ex (\<lambda>t. numel t \<noteq> numel other_i) tensor_list then
        Inl (RuntimeError ''All tensor operands to scatter/gather must have the same size'')
      else
        (let no_copy' = (if no_copy then no_copy_device tensor_list other_i rank else no_copy) in
         case (if no_copy' then Inr (flat_view (tensor_list ! 0) other_i world_size)
               else newLikeFlat tensor_list other_i world_size used) of
           Inl e \<Rightarrow> Inl e
         | Inr flat \<Rightarrow>
             (case flatten_loop world_size rank num_devices rest no_copy' (storage flat # used) of
                Inl e \<Rightarrow> Inl e
              | Inr flattened \<Rightarrow> Inr (flat # flattened))))"

definition flatten_for_scatter_gather ::
  "Tensor list list \<Rightarrow> Tensor list \<Rightarrow> nat \<Rightarrow> nat \<Rightarrow> bool \<Rightarrow> error + Tensor list" where
  "flatten_for_scatter_gather tensor_lists other world_size rank no_copy =
     (if length tensor_lists \<noteq> length other then
        Inl (RuntimeError ''Tensor list operands to scatter/gather must have the same length'')
      else
        flatten_loop world_size rank (length tensor_lists) (zip tensor_lists other) no_copy
          (map storage (concat tensor_lists) @ map storage other))"

section \<open>The environment variable\<close>

text \<open>
  \<^verbatim>\<open>std::stoi(str)\<close> is \<^verbatim>\<open>strtol(str, &end, 10)\<close>: white space is skipped, one sign is
  accepted, then the longest run of decimal digits is read, and whatever follows is
  ignored. With no digit it throws \<^verbatim>\<open>std::invalid_argument\<close>; with a value outside
  \<^verbatim>\<open>int\<close> it throws \<^verbatim>\<open>std::out_of_range\<close>.
\<close>

datatype stoi_error = invalid_argument | out_of_range

definition isspace :: "char \<Rightarrow> bool" where
  "isspace c = (c \<in> set [CHR '' '', CHR 0x09, CHR 0x0A, CHR 0x0B, CHR 0x0C, CHR 0x0D])"

definition isdigit :: "char \<Rightarrow> bool" where
  "isdigit c = (c \<in> set ''0123456789'')"

definition digit_value :: "char \<Rightarrow> int" where
  "digit_value c = int (of_char c) - 48"

definition digits_value :: "string \<Rightarrow> int" where
  "digits_value ds = fold (\<lambda>c v. 10 * v + digit_value c) ds 0"

definition stoi :: "string \<Rightarrow> stoi_error + int" where
  "stoi str =
     (let s1 = dropWhile isspace str;
          neg = (s1 \<noteq> [] \<and> hd s1 = CHR ''-'');
          s2 = (if s1 \<noteq> [] \<and> (hd s1 = CHR ''-'' \<or> hd s1 = CHR ''+'') then tl s1 else s1);
          ds = takeWhile isdigit s2;
          v = (if neg then - digits_value ds else digits_value ds)
      in if ds = [] then Inl invalid_argument
         else if v < - (2 ^ 31) \<or> 2 ^ 31 - 1 < v then Inl out_of_range
         else Inr v)"

text \<open>
  The \<^verbatim>\<open>try\<close> block of the constructor \<^verbatim>\<open>ProcessGroupNCCL::ProcessGroupNCCL\<close>, from
  the value of \<^verbatim>\<open>getenv(NCCL_BLOCKING_WAIT)\<close> (\<open>None\<close> for \<^verbatim>\<open>nullptr\<close>) to the value
  of the member \<open>blockingWait_\<close>, whose initial value is false. The \<^verbatim>\<open>catch\<close> clause
  turns every exception of the block, its own \<^verbatim>\<open>throw\<close> included, into the same
  \<^verbatim>\<open>std::runtime_error\<close>.
\<close>

definition blockingWait_try_block :: "string option \<Rightarrow> (stoi_error + error) + bool" where
  "blockingWait_try_block blockingWait =
     (case blockingWait of
        None \<Rightarrow> Inr False
      | Some str \<Rightarrow>
          (case stoi str of
             Inl e \<Rightarrow> Inl (Inl e)
           | Inr val \<Rightarrow>
               if val = 1 then Inr True
               else if val \<noteq> 0 then
                 Inl (Inr (RuntimeError
                   ''Invalid value for environment variable: NCCL_BLOCKING_WAIT''))
               else Inr False))"

definition blockingWait_from_env :: "string option \<Rightarrow> error + bool" where
  "blockingWait_from_env blockingWait =
     (case blockingWait_try_block blockingWait of
        Inl e \<Rightarrow> Inl (RuntimeError ''Invalid value for environment variable: NCCL_BLOCKING_WAIT'')
      | Inr b \<Rightarrow> Inr b)"

section \<open>The process group and its surroundings\<close>

datatype CUDAStream =
    CurrentStream int  \<comment> \<open>\<^verbatim>\<open>at::cuda::getCurrentCUDAStream(device_index)\<close>\<close>
  | PoolStream nat     \<comment> \<open>a stream handed out by \<^verbatim>\<open>at::cuda::getStreamFromPool()\<close>\<close>

datatype cudaError_t = cudaSuccess | cudaErrorNotReady | cudaErrorLaunchFailure

datatype ncclResult_t =
  ncclSuccess | ncclUnhandledCudaError | ncclSystemError | ncclInternalError
  | ncclInvalidArgument | ncclInvalidUsage

datatype ncclDataType_t =
  ncclInt8 | ncclUint8 | ncclFloat | ncclDouble | ncclInt32 | ncclInt64 | ncclHalf

datatype ReduceOp =
  ReduceOp_SUM | ReduceOp_PRODUCT | ReduceOp_MIN | ReduceOp_MAX
  | ReduceOp_BAND | ReduceOp_BOR | ReduceOp_BXOR

datatype ncclRedOp_t = ncclSum | ncclProd | ncclMax | ncclMin

text \<open>
  Modelled from the spec: the class \<^verbatim>\<open>NCCLComm\<close> is declared in c10d/NCCLUtils.hpp, which
  is not among the sources. The specification gives a communicator the pair of global rank
  and global size it was created with and its UniqueId, lets it be aborted, and lets it be
  queried for an asynchronous error.
\<close>

record NCCLComm =
  ncclId :: ncclUniqueId
  numRanks :: int
  commRank :: int
  aborted :: bool
  ncclAsyncErr :: ncclResult_t

text \<open>A pointer to the data of a tensor: its storage and the offset into it.\<close>

type_synonym data_ptr = "nat \<times> int"

definition data_ptr :: "Tensor \<Rightarrow> data_ptr" where
  "data_ptr t = (storage t, storage_offset t)"

text \<open>
  The calls into the device driver, the caching allocator and the vendor library, in the
  order they are made. They are taken to succeed: \<^verbatim>\<open>C10D_NCCL_CHECK\<close> and
  \<^verbatim>\<open>AT_CUDA_CHECK\<close> throw only on a failure of the vendor or the driver.
\<close>

datatype call =
    EventRecord nat CUDAStream
  | EventBlock nat CUDAStream
  | RecordStream nat CUDAStream
  | SetDevice int
  | DeviceSynchronize
  | FreeMutexLock
  | FreeMutexUnlock
  | NcclGroupStart
  | NcclGroupEnd
  | NcclCommInitRank int int ncclUniqueId
  | NcclCommAbort nat
  | NcclSend data_ptr int ncclDataType_t int nat CUDAStream
  | NcclRecv data_ptr int ncclDataType_t int nat CUDAStream
  | NcclAllReduce data_ptr data_ptr int ncclDataType_t ncclRedOp_t nat CUDAStream
  | NcclAllGather data_ptr data_ptr int ncclDataType_t nat CUDAStream
  | TensorCopy Tensor Tensor nat

text \<open>
  The state: first the members of \<^verbatim>\<open>ProcessGroupNCCL\<close>, then what lies outside the
  object. A member \<^verbatim>\<open>name_\<close> of the class is the field \<open>m_name\<close>. The caches are
  association lists in insertion order.
  \<open>comms\<close> is the heap of \<^verbatim>\<open>NCCLComm\<close> objects, which the caches and the work objects
  share through \<^verbatim>\<open>std::shared_ptr\<close>: a pointer is an address of this heap. \<open>store\<close> is
  the key-value store that the member \<^verbatim>\<open>store_\<close> points to. \<open>event_status\<close> is what
  \<^verbatim>\<open>cudaEventQuery\<close> returns for an event, \<open>clock\<close> the reading of
  \<^verbatim>\<open>std::chrono::steady_clock::now()\<close> in milliseconds, \<open>ncclGetUniqueId_out\<close> the id
  that \<^verbatim>\<open>ncclGetUniqueId\<close> mints next. The counter \<open>m_ncclCommCounter\<close> is a
  \<^verbatim>\<open>uint64_t\<close> that counts the communicator groups created.
\<close>

record state =
  m_rank :: int
  m_size :: int
  m_ncclCommCounter :: nat
  m_opTimeout :: int
  m_blockingWait :: bool
  m_devNCCLCommMap :: "(string \<times> nat list) list"
  m_ncclIdToCommMap :: "(string \<times> nat list) list"
  m_ncclStreams :: "(string \<times> CUDAStream list) list"
  m_ncclEvents :: "(string \<times> nat list) list"
  m_usedDeviceIdxs :: "int set"
  m_abortedComms :: "string set"
  store :: "string \<rightharpoonup> byte list"
  comms :: "nat \<Rightarrow> NCCLComm"
  next_comm :: nat
  next_stream :: nat
  next_event :: nat
  event_status :: "nat \<Rightarrow> cudaError_t"
  clock :: int
  numGPUs :: nat
  ncclGetUniqueId_out :: ncclUniqueId
  calls :: "call list"

definition add_calls :: "call list \<Rightarrow> state \<Rightarrow> state" where
  "add_calls cs s = s\<lparr> calls := calls s @ cs \<rparr>"

text \<open>\<^verbatim>\<open>std::unordered_map::emplace\<close> inserts only where the key is absent.\<close>

definition emplace :: "'k \<Rightarrow> 'v \<Rightarrow> ('k \<times> 'v) list \<Rightarrow> ('k \<times> 'v) list" where
  "emplace k v m = (if map_of m k = None then m @ [(k, v)] else m)"

text \<open>\<^verbatim>\<open>operator[]\<close> of a map of vectors: an absent key gives an empty vector.\<close>

definition at_key :: "('k \<times> 'v list) list \<Rightarrow> 'k \<Rightarrow> 'v list" where
  "at_key m k = (case map_of m k of None \<Rightarrow> [] | Some v \<Rightarrow> v)"

subsection \<open>Decimal strings and device keys\<close>

text \<open>
  \<^verbatim>\<open>std::to_string\<close>: the decimal digits of the value (the first ten characters of
  \<open>hex_digit\<close>), after a minus sign for a negative one.
\<close>

function to_string_nat :: "nat \<Rightarrow> string" where
  "to_string_nat n =
     (if n < 10 then [hex_digit n] else to_string_nat (n div 10) @ [hex_digit (n mod 10)])"
  by pat_completeness auto
termination
  by (relation "measure (\<lambda>n. n)") auto

declare to_string_nat.simps [simp del]

definition to_string :: "int \<Rightarrow> string" where
  "to_string i = (if i < 0 then CHR ''-'' # to_string_nat (nat (- i)) else to_string_nat (nat i))"

fun getKeyFromDevices :: "int list \<Rightarrow> string" where
  "getKeyFromDevices devices =
     fold (\<lambda>device deviceList.
             if deviceList = [] then to_string device
             else deviceList @ '','' @ to_string device) devices []"

definition getDeviceList :: "Tensor list \<Rightarrow> int list" where
  "getDeviceList tensors = map get_device tensors"

definition syncStreams :: "int list \<Rightarrow> nat list \<Rightarrow> CUDAStream list \<Rightarrow> call list" where
  "syncStreams devices ncclEvents ncclStreams =
     concat (map (\<lambda>i. [EventRecord (ncclEvents ! i) (CurrentStream (devices ! i)),
                        EventBlock (ncclEvents ! i) (ncclStreams ! i)])
                 [0..<length devices])"

subsection \<open>Communicators\<close>

text \<open>
  Modelled from the spec: \<^verbatim>\<open>NCCLComm::ncclCommAbort\<close> and
  \<^verbatim>\<open>NCCLComm::checkForNcclError\<close> (c10d/NCCLUtils.hpp). Aborting marks the
  communicator aborted; the query reports its asynchronous error.
\<close>

definition ncclCommAbort :: "nat \<Rightarrow> state \<Rightarrow> state" where
  "ncclCommAbort p s =
     s\<lparr> comms := (comms s)(p := (comms s p)\<lparr> aborted := True \<rparr>),
        calls := calls s @ [NcclCommAbort p] \<rparr>"

definition checkForNcclError :: "nat \<Rightarrow> state \<Rightarrow> ncclResult_t" where
  "checkForNcclError p s = ncclAsyncErr (comms s p)"

definition getNcclId :: "nat \<Rightarrow> state \<Rightarrow> ncclUniqueId" where
  "getNcclId p s = ncclId (comms s p)"

text \<open>
  \<^verbatim>\<open>checkForNCCLErrorsInternal\<close>: the exception for the first communicator that reports
  an error, \<open>None\<close> for \<^verbatim>\<open>nullptr\<close>.
\<close>

fun checkForNCCLErrors :: "nat list \<Rightarrow> state \<Rightarrow> error option" where
  "checkForNCCLErrors [] s = None"
| "checkForNCCLErrors (ncclComm # rest) s =
     (if checkForNcclError ncclComm s \<noteq> ncclSuccess then Some (RuntimeError ''NCCL error'')
      else checkForNCCLErrors rest s)"

text \<open>
  The key-value store. \<^verbatim>\<open>get\<close> blocks until the key is present: where it is absent
  the call does not return, which is the error value \<open>RuntimeError ''store get: no value''\<close>
  of this model.
\<close>

definition store_set :: "string \<Rightarrow> byte list \<Rightarrow> state \<Rightarrow> state" where
  "store_set key val s = s\<lparr> store := (store s)(key \<mapsto> val) \<rparr>"

definition broadcastUniqueNCCLID :: "ncclUniqueId \<Rightarrow> state \<Rightarrow> (error + ncclUniqueId) \<times> state" where
  "broadcastUniqueNCCLID ncclID s =
     (let storeKey = to_string_nat (m_ncclCommCounter s);
          s1 = s\<lparr> m_ncclCommCounter := m_ncclCommCounter s + 1 \<rparr> in
      if m_rank s1 = 0 then
        (Inr ncclID, store_set storeKey (take NCCL_UNIQUE_ID_BYTES ncclID) s1)
      else
        (case store s1 storeKey of
           None \<Rightarrow> (Inl (RuntimeError ''store get: no value''), s1)
         | Some vec \<Rightarrow>
             if length vec = NCCL_UNIQUE_ID_BYTES then (Inr vec, s1)
             else (Inl (TorchCheckFailed ''vec.size() == NCCL_UNIQUE_ID_BYTES''), s1)))"

text \<open>A conversion to \<^verbatim>\<open>int\<close> keeps the low 32 bits, read as two's complement.\<close>

definition to_int :: "int \<Rightarrow> int" where
  "to_int x = (x + 2 ^ 31) mod 2 ^ 32 - 2 ^ 31"

text \<open>
  One round of the loop of \<^verbatim>\<open>getNCCLComm\<close> that creates the communicators:
  \<^verbatim>\<open>NCCLComm::create(numRanks, rank, ncclID)\<close> allocates the object, and one stream is
  taken from the pool.
\<close>

definition create_comm ::
  "int list \<Rightarrow> ncclUniqueId \<Rightarrow> nat \<Rightarrow> (nat list \<times> CUDAStream list) \<times> state
     \<Rightarrow> (nat list \<times> CUDAStream list) \<times> state" where
  "create_comm devices ncclID i acc =
     (case acc of ((ncclComms, streamVal), s) \<Rightarrow>
        (let numRanks = to_int (u64 (m_size s * int (length devices)));
             rank = to_int (u64 (m_rank s * int (length devices) + int i));
             p = next_comm s;
             s' = s\<lparr> comms := (comms s)(p := \<lparr> ncclId = ncclID, numRanks = numRanks,
                                               commRank = rank, aborted = False,
                                               ncclAsyncErr = ncclSuccess \<rparr>),
                     next_comm := Suc p,
                     next_stream := Suc (next_stream s),
                     calls := calls s @ [SetDevice (devices ! i),
                                         NcclCommInitRank numRanks rank ncclID] \<rparr>
         in ((ncclComms @ [p], streamVal @ [PoolStream (next_stream s)]), s')))"

definition getNCCLComm :: "string \<Rightarrow> int list \<Rightarrow> state \<Rightarrow> (error + nat list) \<times> state" where
  "getNCCLComm devicesKey devices s =
     (if devicesKey = [] then
        (Inl (RuntimeError
           ''Not able to create/get the NCCL Communicator since the GPU devices are not known''), s)
      else
        (let s1 = s\<lparr> m_usedDeviceIdxs := m_usedDeviceIdxs s \<union> set devices \<rparr> in
         case map_of (m_devNCCLCommMap s1) devicesKey of
           Some ncclComms \<Rightarrow> (Inr ncclComms, s1)
         | None \<Rightarrow>
             (case broadcastUniqueNCCLID
                     (if m_rank s1 = 0 then ncclGetUniqueId_out s1 else []) s1 of
                (Inl e, s2) \<Rightarrow> (Inl e, s2)
              | (Inr ncclID, s2) \<Rightarrow>
                  (case fold (create_comm devices ncclID) [0..<length devices]
                          (([], []), add_calls [NcclGroupStart] s2) of
                     ((ncclComms, streamVal), s3) \<Rightarrow>
                       (let s4 = add_calls [NcclGroupEnd] s3;
                            s5 = s4\<lparr> m_ncclStreams := emplace devicesKey streamVal (m_ncclStreams s4),
                                     m_ncclEvents := emplace devicesKey
                                        [next_event s4..<next_event s4 + length devices]
                                        (m_ncclEvents s4),
                                     next_event := next_event s4 + length devices \<rparr>;
                            s6 = s5\<lparr> m_ncclIdToCommMap :=
                                        emplace (buildNcclUniqueIdStr ncclID) ncclComms
                                          (m_ncclIdToCommMap s5),
                                     m_devNCCLCommMap :=
                                        emplace devicesKey ncclComms (m_devNCCLCommMap s5) \<rparr>
                        in (Inr (at_key (m_devNCCLCommMap s6) devicesKey), s6))))))"

subsection \<open>Work objects\<close>

datatype Store_ptr = nullptr | store_ptr

text \<open>
  \<^verbatim>\<open>ProcessGroupNCCL::WorkNCCL\<close>; a member \<^verbatim>\<open>name_\<close> is the field \<open>w_name\<close>.
  \<open>w_store\<close> is a \<^verbatim>\<open>std::shared_ptr<Store>\<close>: either null or a pointer to the store of
  the process group. \<open>w_exception\<close> is the \<^verbatim>\<open>std::exception_ptr\<close>, \<open>None\<close> when null.
\<close>

record WorkNCCL =
  w_devices :: "int list"
  w_cudaEvents :: "nat list"
  w_ncclComms :: "nat list"
  w_workStartTime :: int
  w_blockingWait :: bool
  w_opTimeout :: int
  w_store :: Store_ptr
  w_exception :: "error option"
  w_barrierTensors :: "Tensor list"

text \<open>
  \<^verbatim>\<open>initWork\<close>, that is the constructor of \<^verbatim>\<open>WorkNCCL\<close>: it sets the devices and the
  start time and sizes both vectors. The other members have their default values: a
  \<^verbatim>\<open>shared_ptr\<close> and an \<^verbatim>\<open>exception_ptr\<close> are null, the flag is false.
\<close>

definition initWork :: "int list \<Rightarrow> state \<Rightarrow> WorkNCCL \<times> state" where
  "initWork devices s =
     (\<lparr> w_devices = devices,
        w_cudaEvents = [next_event s..<next_event s + length devices],
        w_ncclComms = [],
        w_workStartTime = clock s,
        w_blockingWait = False,
        w_opTimeout = 0,
        w_store = nullptr,
        w_exception = None,
        w_barrierTensors = [] \<rparr>,
      s\<lparr> next_event := next_event s + length devices \<rparr>)"

subsection \<open>Submitting collectives\<close>

text \<open>
  The loop of \<^verbatim>\<open>collective\<close> inside the group: \<open>fn\<close> gives the calls made for one
  device and the exception it then throws, if any, which ends the loop.
\<close>

fun submit_loop ::
  "(Tensor \<Rightarrow> Tensor \<Rightarrow> nat \<Rightarrow> CUDAStream \<Rightarrow> call list \<times> error option)
     \<Rightarrow> Tensor list \<Rightarrow> Tensor list \<Rightarrow> int list \<Rightarrow> nat list \<Rightarrow> CUDAStream list \<Rightarrow> nat list
     \<Rightarrow> call list \<times> error option" where
  "submit_loop fn inputs outputs devices ncclComms streams [] = ([], None)"
| "submit_loop fn inputs outputs devices ncclComms streams (i # rest) =
     (case fn (inputs ! i) (outputs ! i) (ncclComms ! i) (streams ! i) of
        (cs, Some e) \<Rightarrow> (SetDevice (devices ! i) # cs, Some e)
      | (cs, None) \<Rightarrow>
          (case submit_loop fn inputs outputs devices ncclComms streams rest of
             (cs', r) \<Rightarrow> (SetDevice (devices ! i) # cs @ cs', r)))"

text \<open>
  \<^verbatim>\<open>collective\<close>. \<open>pre\<close> and \<open>post\<close> give the calls of the two hooks, and the error
  they then throw, from the streams of the key. \<^verbatim>\<open>AutoNcclGroup\<close> ends the group and
  releases the mutex also when the loop throws. The last loop records one event per device and copies
  the communicators, the flag, the timeout and the store pointer into the work.
\<close>

definition collective ::
  "Tensor list \<Rightarrow> Tensor list
     \<Rightarrow> (Tensor \<Rightarrow> Tensor \<Rightarrow> nat \<Rightarrow> CUDAStream \<Rightarrow> call list \<times> error option)
     \<Rightarrow> (CUDAStream list \<Rightarrow> call list \<times> error option)
     \<Rightarrow> (CUDAStream list \<Rightarrow> call list \<times> error option)
     \<Rightarrow> state \<Rightarrow> (error + WorkNCCL) \<times> state" where
  "collective inputs outputs fn pre post s =
     (let devices = getDeviceList inputs;
          key = getKeyFromDevices devices in
      case getNCCLComm key devices s of
        (Inl e, s1) \<Rightarrow> (Inl e, s1)
      | (Inr ncclComms, s1) \<Rightarrow>
          (let streams = at_key (m_ncclStreams s1) key;
               s2 = add_calls (syncStreams devices (at_key (m_ncclEvents s1) key) streams) s1 in
           case initWork devices s2 of (work, s3) \<Rightarrow>
             (case pre streams of
                (pre_calls, Some e) \<Rightarrow> (Inl e, add_calls pre_calls s3)
              | (pre_calls, None) \<Rightarrow>
                  (let s4 = add_calls pre_calls s3;
                       s5 = add_calls
                              (concat (map (\<lambda>i. [SetDevice (devices ! i),
                                                   RecordStream (storage (inputs ! i)) (streams ! i)])
                                            [0..<length inputs])) s4 in
                   case submit_loop fn inputs outputs devices ncclComms streams
                          [0..<length inputs] of
                     (fn_calls, thrown) \<Rightarrow>
                       (let s6 = add_calls ([FreeMutexLock, NcclGroupStart] @ fn_calls @
                                            [NcclGroupEnd, FreeMutexUnlock]) s5 in
                        case thrown of
                          Some e \<Rightarrow> (Inl e, s6)
                        | None \<Rightarrow>
                            (case post streams of
                               (post_calls, Some e) \<Rightarrow> (Inl e, add_calls post_calls s6)
                             | (post_calls, None) \<Rightarrow>
                                 (let s7 = add_calls post_calls s6;
                                      s8 = add_calls
                                             (map (\<lambda>i. EventRecord (w_cudaEvents work ! i)
                                                          (streams ! i))
                                                  [0..<length inputs]) s7;
                                      work' =
                                        (if length inputs = 0 then work
                                         else work\<lparr> w_ncclComms := take (length inputs) ncclComms,
                                                    w_blockingWait := m_blockingWait s8,
                                                    w_opTimeout := m_opTimeout s8,
                                                    w_store := store_ptr \<rparr>)
                                  in (Inr work', s8))))))))"

text \<open>
  \<^verbatim>\<open>batchedp2p\<close>. One send and one receive per peer, all on the first stream and the
  first communicator of the key. Its last loop copies the communicators, the flag and the
  timeout into the work.
\<close>

definition batchedp2p ::
  "data_ptr list \<Rightarrow> int list \<Rightarrow> data_ptr list \<Rightarrow> int list \<Rightarrow> ncclDataType_t
     \<Rightarrow> Tensor list \<Rightarrow> Tensor list \<Rightarrow> state \<Rightarrow> (error + WorkNCCL) \<times> state" where
  "batchedp2p send_ptrs send_lengths recv_ptrs recv_lengths datatype inputs outputs s =
     (let devices = getDeviceList inputs;
          key = getKeyFromDevices devices in
      case getNCCLComm key devices s of
        (Inl e, s1) \<Rightarrow> (Inl e, s1)
      | (Inr ncclComms, s1) \<Rightarrow>
          (let streams = at_key (m_ncclStreams s1) key;
               s2 = add_calls (syncStreams devices (at_key (m_ncclEvents s1) key) streams) s1 in
           case initWork devices s2 of (work, s3) \<Rightarrow>
             (let s4 = add_calls
                         (concat (map (\<lambda>i. [SetDevice (devices ! i),
                                              RecordStream (storage (inputs ! i)) (streams ! i)])
                                       [0..<length inputs])) s3;
                  s5 = add_calls
                         ([FreeMutexLock, NcclGroupStart] @
                          concat (map (\<lambda>i. map (\<lambda>j. SetDevice (devices ! j)) [0..<length inputs] @
                                             [NcclSend (send_ptrs ! i) (send_lengths ! i) datatype
                                                (int i) (ncclComms ! 0) (streams ! 0),
                                              NcclRecv (recv_ptrs ! i) (recv_lengths ! i) datatype
                                                (int i) (ncclComms ! 0) (streams ! 0)])
                                       [0..<nat (m_size s3)]) @
                          [NcclGroupEnd, FreeMutexUnlock]) s4;
                  s6 = add_calls
                         (concat (map (\<lambda>i. [SetDevice (devices ! i),
                                              RecordStream (storage (outputs ! i)) (streams ! i)])
                                       [0..<length outputs])) s5;
                  s7 = add_calls
                         (map (\<lambda>i. EventRecord (w_cudaEvents work ! i) (streams ! i))
                              [0..<length inputs]) s6;
                  work' = (if length inputs = 0 then work
                           else work\<lparr> w_ncclComms := take (length inputs) ncclComms,
                                      w_blockingWait := m_blockingWait s7,
                                      w_opTimeout := m_opTimeout s7 \<rparr>)
              in (Inr work', s7))))"

text \<open>The two tables and \<^verbatim>\<open>getNcclDataType\<close>; \<^verbatim>\<open>ncclOp[op]\<close> on a key that is absent
  inserts the value 0, which is \<^verbatim>\<open>ncclSum\<close>.\<close>

definition getNcclDataType :: "ScalarType \<Rightarrow> error + ncclDataType_t" where
  "getNcclDataType type =
     (case type of
        kChar \<Rightarrow> Inr ncclInt8
      | kByte \<Rightarrow> Inr ncclUint8
      | kFloat \<Rightarrow> Inr ncclFloat
      | kDouble \<Rightarrow> Inr ncclDouble
      | kInt \<Rightarrow> Inr ncclInt32
      | kLong \<Rightarrow> Inr ncclInt64
      | kHalf \<Rightarrow> Inr ncclHalf
      | _ \<Rightarrow> Inl (RuntimeError ''Unsupported data type for NCCL process group''))"

definition ncclOp :: "ReduceOp \<Rightarrow> ncclRedOp_t" where
  "ncclOp op =
     (case op of
        ReduceOp_MIN \<Rightarrow> ncclMin
      | ReduceOp_MAX \<Rightarrow> ncclMax
      | ReduceOp_SUM \<Rightarrow> ncclSum
      | ReduceOp_PRODUCT \<Rightarrow> ncclProd
      | _ \<Rightarrow> ncclSum)"

text \<open>\<^verbatim>\<open>allreduce\<close> and its closure.\<close>

definition allreduce_fn ::
  "ReduceOp \<Rightarrow> Tensor \<Rightarrow> Tensor \<Rightarrow> nat \<Rightarrow> CUDAStream \<Rightarrow> call list \<times> error option" where
  "allreduce_fn reduceOp input output comm stream =
     (case getNcclDataType (scalar_type input) of
        Inl e \<Rightarrow> ([], Some e)
      | Inr dt \<Rightarrow> ([NcclAllReduce (data_ptr input) (data_ptr output) (numel input) dt
                      (ncclOp reduceOp) comm stream], None))"

definition allreduce :: "Tensor list \<Rightarrow> ReduceOp \<Rightarrow> state \<Rightarrow> (error + WorkNCCL) \<times> state" where
  "allreduce tensors reduceOp s =
     (case check_gpu_tensors (numGPUs s) tensors of
        Inl e \<Rightarrow> (Inl e, s)
      | Inr _ \<Rightarrow>
          collective tensors tensors (allreduce_fn reduceOp)
            (\<lambda>streams. ([], None)) (\<lambda>streams. ([], None)) s)"

text \<open>
  \<^verbatim>\<open>allgather\<close>: its closure and its \<open>post\<close> hook. The inner loop of the hook, for one
  device, runs over \<open>j\<close> below \<^verbatim>\<open>outputTensors[0].size()\<close>; reading \<^verbatim>\<open>outputTensors[i][j]\<close>
  beyond the end of the vector is undefined behaviour. \<^verbatim>\<open>outputFlattened[i][j]\<close> is a slice
  of \<^verbatim>\<open>outputFlattened[i]\<close> and has its storage.
\<close>

definition allgather_fn :: "Tensor \<Rightarrow> Tensor \<Rightarrow> nat \<Rightarrow> CUDAStream \<Rightarrow> call list \<times> error option" where
  "allgather_fn input output comm stream =
     (case getNcclDataType (scalar_type input) of
        Inl e \<Rightarrow> ([RecordStream (storage output) stream], Some e)
      | Inr dt \<Rightarrow> ([RecordStream (storage output) stream,
                     NcclAllGather (data_ptr input) (data_ptr output) (numel input) dt
                       comm stream], None))"

fun allgather_post_device ::
  "Tensor list \<Rightarrow> Tensor \<Rightarrow> CUDAStream \<Rightarrow> nat list \<Rightarrow> call list \<times> error option" where
  "allgather_post_device outputTensors_i outputFlattened_i ncclStream [] = ([], None)"
| "allgather_post_device outputTensors_i outputFlattened_i ncclStream (j # js) =
     (if length outputTensors_i \<le> j then
        ([], Some (UndefinedBehaviour ''outputTensors[i][j] beyond the end of the vector''))
      else if is_alias_of (storage outputFlattened_i) (storage (outputTensors_i ! j)) \<and>
              u64 (storage_offset (outputTensors_i ! j)) =
                u64 (storage_offset (outputTensors_i ! 0) + numel (outputTensors_i ! j) * int j)
      then ([], None)
      else
        (case allgather_post_device outputTensors_i outputFlattened_i ncclStream js of
           (cs, r) \<Rightarrow>
             (RecordStream (storage (outputTensors_i ! j)) ncclStream #
              TensorCopy (outputTensors_i ! j) outputFlattened_i j # cs, r)))"

fun allgather_post_loop ::
  "Tensor list list \<Rightarrow> Tensor list \<Rightarrow> CUDAStream list \<Rightarrow> nat list \<Rightarrow> call list \<times> error option"
  where
  "allgather_post_loop outputTensors outputFlattened ncclStreams [] = ([], None)"
| "allgather_post_loop outputTensors outputFlattened ncclStreams (i # rest) =
     (case allgather_post_device (outputTensors ! i) (outputFlattened ! i) (ncclStreams ! i)
             [0..<length (outputTensors ! 0)] of
        (cs, Some e) \<Rightarrow> (cs, Some e)
      | (cs, None) \<Rightarrow>
          (case allgather_post_loop outputTensors outputFlattened ncclStreams rest of
             (cs', r) \<Rightarrow> (cs @ cs', r)))"

definition allgather_post ::
  "Tensor list list \<Rightarrow> Tensor list \<Rightarrow> CUDAStream list \<Rightarrow> call list \<times> error option" where
  "allgather_post outputTensors outputFlattened ncclStreams =
     allgather_post_loop outputTensors outputFlattened ncclStreams [0..<length outputTensors]"

text \<open>\<open>m_size\<close> and \<open>m_rank\<close> are \<^verbatim>\<open>int\<close>; the flattener takes them as \<^verbatim>\<open>size_t\<close>.\<close>

definition allgather ::
  "Tensor list list \<Rightarrow> Tensor list \<Rightarrow> bool \<Rightarrow> state \<Rightarrow> (error + WorkNCCL) \<times> state" where
  "allgather outputTensors inputTensors noCopy s =
     (case check_gpu_tensors (numGPUs s) inputTensors of
        Inl e \<Rightarrow> (Inl e, s)
      | Inr _ \<Rightarrow>
          (case flatten_for_scatter_gather outputTensors inputTensors
                  (nat (u64 (m_size s))) (nat (u64 (m_rank s))) noCopy of
             Inl e \<Rightarrow> (Inl e, s)
           | Inr outputFlattened \<Rightarrow>
               (case check_gpu_tensors (numGPUs s) outputFlattened of
                  Inl e \<Rightarrow> (Inl e, s)
                | Inr _ \<Rightarrow>
                    collective inputTensors outputFlattened allgather_fn
                      (\<lambda>ncclStreams. ([], None))
                      (allgather_post outputTensors outputFlattened) s)))"

text \<open>
  \<^verbatim>\<open>alltoall\<close>. The lengths are stored into \<^verbatim>\<open>std::vector<int>\<close>. The data type is an
  argument of the call of \<^verbatim>\<open>batchedp2p\<close> and is computed before it is entered.
\<close>

definition alltoall ::
  "Tensor list \<Rightarrow> Tensor list \<Rightarrow> state \<Rightarrow> (error + WorkNCCL) \<times> state" where
  "alltoall outputTensors inputTensors s =
     (if int (length inputTensors) \<noteq> u64 (m_size s) \<or>
         int (length outputTensors) \<noteq> u64 (m_size s) then
        (Inl (RuntimeError ''Number of input or output tensors are not equal to group size''), s)
      else
        (case check_gpu_tensors_multi (numGPUs s) inputTensors True of
           Inl e \<Rightarrow> (Inl e, s)
         | Inr _ \<Rightarrow>
             (case check_gpu_tensors_multi (numGPUs s) outputTensors True of
                Inl e \<Rightarrow> (Inl e, s)
              | Inr _ \<Rightarrow>
                  (let peers = [0..<nat (m_size s)];
                       send_lengths = map (\<lambda>i. to_int (numel (inputTensors ! i))) peers;
                       recv_lengths = map (\<lambda>i. to_int (numel (outputTensors ! i))) peers;
                       send_ptrs = map (\<lambda>i. data_ptr (inputTensors ! i)) peers;
                       recv_ptrs = map (\<lambda>i. data_ptr (outputTensors ! i)) peers in
                   case getNcclDataType (scalar_type (inputTensors ! 0)) of
                     Inl e \<Rightarrow> (Inl e, s)
                   | Inr datatype \<Rightarrow>
                       batchedp2p send_ptrs send_lengths recv_ptrs recv_lengths datatype
                         [inputTensors ! 0] [outputTensors ! 0] s))))"

subsection \<open>Waiting for a work\<close>

definition checkAndSetException :: "WorkNCCL \<Rightarrow> state \<Rightarrow> WorkNCCL" where
  "checkAndSetException w s =
     (if w_exception w \<noteq> None then w
      else w\<lparr> w_exception := checkForNCCLErrors (w_ncclComms w) s \<rparr>)"

text \<open>
  \<^verbatim>\<open>finishedGPUExecutionInternal\<close>: a result of \<^verbatim>\<open>cudaEventQuery\<close> other than success
  and not-ready is thrown by \<^verbatim>\<open>AT_CUDA_CHECK\<close>.
\<close>

fun events_finished :: "nat list \<Rightarrow> state \<Rightarrow> error + bool" where
  "events_finished [] s = Inr True"
| "events_finished (ev # rest) s =
     (let ret = event_status s ev in
      if ret \<noteq> cudaSuccess \<and> ret \<noteq> cudaErrorNotReady then Inl (RuntimeError ''CUDA error'')
      else if ret = cudaErrorNotReady then Inr False
      else events_finished rest s)"

definition finishedGPUExecutionInternal :: "WorkNCCL \<Rightarrow> state \<Rightarrow> error + bool" where
  "finishedGPUExecutionInternal w s =
     events_finished (take (length (w_devices w)) (w_cudaEvents w)) s"

definition isCompleted :: "WorkNCCL \<Rightarrow> state \<Rightarrow> (error + bool) \<times> WorkNCCL" where
  "isCompleted w s =
     (let w1 = checkAndSetException w s in
      if w_exception w1 \<noteq> None then (Inr True, w1)
      else (finishedGPUExecutionInternal w1 s, w1))"

text \<open>\<^verbatim>\<open>checkAndThrowException\<close>: the exception rethrown, if there is one.\<close>

definition checkAndThrowException :: "WorkNCCL \<Rightarrow> state \<Rightarrow> error option \<times> WorkNCCL" where
  "checkAndThrowException w s =
     (let w1 = checkAndSetException w s in (w_exception w1, w1))"

text \<open>
  The loop of \<^verbatim>\<open>synchronize\<close> that runs when the work has timed out: each communicator
  is aborted, then its key is set in the store through the pointer \<open>store_\<close> of the work.
  Calling \<^verbatim>\<open>store_->set\<close> through a null pointer is undefined behaviour.
\<close>

fun abort_and_publish :: "Store_ptr \<Rightarrow> nat list \<Rightarrow> state \<Rightarrow> error option \<times> state" where
  "abort_and_publish sp [] s = (None, s)"
| "abort_and_publish sp (ncclComm # rest) s =
     (let s1 = ncclCommAbort ncclComm s;
          storeKey = getNcclAbortedCommStoreKey (buildNcclUniqueIdStr (getNcclId ncclComm s1)) in
      case sp of
        nullptr \<Rightarrow> (Some (UndefinedBehaviour ''store_->set through a null pointer''), s1)
      | store_ptr \<Rightarrow> abort_and_publish sp rest (store_set storeKey [] s1))"

datatype iteration = Returns | Throws error | Sleeps

text \<open>
  One evaluation of the condition of \<^verbatim>\<open>while (!isCompleted())\<close> and, where it holds, one
  round of the body up to \<^verbatim>\<open>sleep_for\<close>; where it does not, the call of
  \<^verbatim>\<open>checkAndThrowException\<close> that follows the loop.
\<close>

definition synchronize_iteration :: "WorkNCCL \<Rightarrow> state \<Rightarrow> iteration \<times> WorkNCCL \<times> state" where
  "synchronize_iteration w s =
     (case isCompleted w s of
        (Inl e, w1) \<Rightarrow> (Throws e, w1, s)
      | (Inr True, w1) \<Rightarrow>
          (case checkAndThrowException w1 s of
             (Some e, w2) \<Rightarrow> (Throws e, w2, s)
           | (None, w2) \<Rightarrow> (Returns, w2, s))
      | (Inr False, w1) \<Rightarrow>
          if clock s - w_workStartTime w1 > w_opTimeout w1 then
            (case abort_and_publish (w_store w1) (w_ncclComms w1) s of
               (Some e, s') \<Rightarrow> (Throws e, w1, s')
             | (None, s') \<Rightarrow> (Throws (RuntimeError ''Operation timed out!''), w1, s'))
          else
            (case checkAndThrowException w1 s of
               (Some e, w2) \<Rightarrow> (Throws e, w2, s)
             | (None, w2) \<Rightarrow> (Sleeps, w2, s)))"

text \<open>
  The busy wait. Each element of the list is what the devices, the vendor library, the
  clock and the other threads do to the state during one \<^verbatim>\<open>sleep_for\<close>. The result is
  \<open>None\<close> when the work is still waiting after the last of them.
\<close>

fun synchronize_loop ::
  "(state \<Rightarrow> state) list \<Rightarrow> WorkNCCL \<Rightarrow> state \<Rightarrow> (error + unit) option \<times> WorkNCCL \<times> state" where
  "synchronize_loop [] w s =
     (case synchronize_iteration w s of
        (Returns, w', s') \<Rightarrow> (Some (Inr ()), w', s')
      | (Throws e, w', s') \<Rightarrow> (Some (Inl e), w', s')
      | (Sleeps, w', s') \<Rightarrow> (None, w', s'))"
| "synchronize_loop (env # envs) w s =
     (case synchronize_iteration w s of
        (Returns, w', s') \<Rightarrow> (Some (Inr ()), w', s')
      | (Throws e, w', s') \<Rightarrow> (Some (Inl e), w', s')
      | (Sleeps, w', s') \<Rightarrow> synchronize_loop envs w' (env s'))"

definition synchronize ::
  "(state \<Rightarrow> state) list \<Rightarrow> WorkNCCL \<Rightarrow> state \<Rightarrow> (error + unit) option \<times> WorkNCCL \<times> state" where
  "synchronize envs w s =
     (let s1 = add_calls
                 (concat (map (\<lambda>i. EventBlock (w_cudaEvents w ! i) (CurrentStream (w_devices w ! i)) #
                                    (if w_barrierTensors w \<noteq> []
                                     then [SetDevice (w_devices w ! i), DeviceSynchronize]
                                     else []))
                              [0..<length (w_devices w)])) s in
      if w_blockingWait w then synchronize_loop envs w s1
      else (Some (Inr ()), w, s1))"

subsection \<open>The watchdog\<close>

text \<open>
  The first block of one round of \<^verbatim>\<open>ncclCommWatchdogInternal\<close>, for one entry of the
  cache: the ids of the group are added to \<open>allCommIds\<close>; when the group reports an error
  and blocking wait is on, each communicator is aborted and its id added to
  \<open>abortedCommIds\<close>. The two \<^verbatim>\<open>std::unordered_set\<close> are lists without duplicates.
\<close>

definition watchdog_scan_group ::
  "string \<times> nat list \<Rightarrow> string list \<times> string list \<times> state \<Rightarrow> string list \<times> string list \<times> state"
  where
  "watchdog_scan_group entry acc =
     (case acc of (abortedCommIds, allCommIds, s) \<Rightarrow>
        (let ncclComms = snd entry;
             allCommIds' = fold (\<lambda>ncclComm ids.
                                   List.insert (buildNcclUniqueIdStr (getNcclId ncclComm s)) ids)
                                ncclComms allCommIds in
         if checkForNCCLErrors ncclComms s \<noteq> None then
           (if m_blockingWait s then
              (case fold (\<lambda>ncclComm (ids, s').
                            (List.insert (buildNcclUniqueIdStr (getNcclId ncclComm s')) ids,
                             ncclCommAbort ncclComm s'))
                         ncclComms (abortedCommIds, s) of
                 (abortedCommIds', s') \<Rightarrow> (abortedCommIds', allCommIds', s'))
            else (abortedCommIds, allCommIds', s))
         else (abortedCommIds, allCommIds', s)))"

definition watchdog_scan :: "state \<Rightarrow> string list \<times> string list \<times> state" where
  "watchdog_scan s = fold watchdog_scan_group (m_devNCCLCommMap s) ([], [], s)"

text \<open>The loop that records the aborted ids locally and in the store.\<close>

definition watchdog_publish :: "string list \<Rightarrow> state \<Rightarrow> state" where
  "watchdog_publish abortedCommIds s =
     fold (\<lambda>abortedCommId s'.
             store_set (getNcclAbortedCommStoreKey abortedCommId) []
               (s'\<lparr> m_abortedComms := insert abortedCommId (m_abortedComms s') \<rparr>))
          abortedCommIds s"

text \<open>
  The loop that looks for markers of other ranks. \<^verbatim>\<open>store_->wait\<close> throws when the key
  does not appear in time, and \<^verbatim>\<open>TORCH_INTERNAL_ASSERT\<close> throws when the reverse index
  has no entry; the \<^verbatim>\<open>catch\<close> clause of the loop body swallows both.
\<close>

definition watchdog_check_store :: "string list \<Rightarrow> state \<Rightarrow> state" where
  "watchdog_check_store allCommIds s =
     fold (\<lambda>commId s'.
             if commId \<in> m_abortedComms s' then s'
             else
               (case store s' (getNcclAbortedCommStoreKey commId) of
                  None \<Rightarrow> s'
                | Some _ \<Rightarrow>
                    (case map_of (m_ncclIdToCommMap s') commId of
                       None \<Rightarrow> s'
                     | Some ncclComms \<Rightarrow>
                         (fold ncclCommAbort ncclComms s')
                           \<lparr> m_abortedComms := insert commId (m_abortedComms s') \<rparr>)))
          allCommIds s"

definition watchdog_iteration :: "state \<Rightarrow> state" where
  "watchdog_iteration s =
     (case watchdog_scan s of
        (abortedCommIds, allCommIds, s1) \<Rightarrow>
          if m_blockingWait s1 then
            watchdog_check_store allCommIds (watchdog_publish abortedCommIds s1)
          else s1)"

text \<open>
  The loop of the watchdog thread: each element of the list is what the rest of the system
  does to the state while the thread waits on its condition variable; the list ends where
  \<^verbatim>\<open>terminateWatchdog_\<close> is found set.
\<close>

definition ncclCommWatchdogInternal :: "(state \<Rightarrow> state) list \<Rightarrow> state \<Rightarrow> state" where
  "ncclCommWatchdogInternal envs s = fold (\<lambda>env s'. env (watchdog_iteration s')) envs s"

subsection \<open>Construction\<close>

text \<open>
  The constructor \<^verbatim>\<open>ProcessGroupNCCL::ProcessGroupNCCL\<close>: \<open>blockingWait\<close> is the value of
  \<^verbatim>\<open>getenv(NCCL_BLOCKING_WAIT)\<close>, \<open>world\<close> gives what lies outside the object. The
  caches start empty and the counter at 0.
\<close>

definition ProcessGroupNCCL :: "string option \<Rightarrow> int \<Rightarrow> int \<Rightarrow> int \<Rightarrow> state \<Rightarrow> error + state" where
  "ProcessGroupNCCL blockingWait rank group_size opTimeout world =
     (case blockingWait_from_env blockingWait of
        Inl e \<Rightarrow> Inl e
      | Inr b \<Rightarrow>
          Inr (world\<lparr> m_rank := rank, m_size := group_size, m_ncclCommCounter := 0,
                      m_opTimeout := opTimeout, m_blockingWait := b,
                      m_devNCCLCommMap := [], m_ncclIdToCommMap := [],
                      m_ncclStreams := [], m_ncclEvents := [],
                      m_usedDeviceIdxs := {}, m_abortedComms := {} \<rparr>))"

text \<open>
  A world for the concrete cases below: an empty store, a heap without communicators, two
  GPUs, no event ready, and an id of 128 bytes for the vendor to mint.
\<close>

definition example_world :: state where
  "example_world =
     \<lparr> m_rank = 0, m_size = 0, m_ncclCommCounter = 0, m_opTimeout = 0, m_blockingWait = False,
       m_devNCCLCommMap = [], m_ncclIdToCommMap = [], m_ncclStreams = [], m_ncclEvents = [],
       m_usedDeviceIdxs = {}, m_abortedComms = {},
       store = Map.empty,
       comms = (\<lambda>p. \<lparr> ncclId = [], numRanks = 0, commRank = 0, aborted = False,
                        ncclAsyncErr = ncclSuccess \<rparr>),
       next_comm = 0, next_stream = 0, next_event = 0,
       event_status = (\<lambda>ev. cudaErrorNotReady),
       clock = 0, numGPUs = 2,
       ncclGetUniqueId_out = replicate 128 171,
       calls = [] \<rparr>"

text \<open>A contiguous dense CUDA tensor of floats, for the concrete cases below.\<close>

definition example_tensor :: "int \<Rightarrow> nat \<Rightarrow> int \<Rightarrow> int list \<Rightarrow> Tensor" where
  "example_tensor device st offset shape =
     \<lparr> is_cuda = True, is_sparse = False, scalar_type = kFloat, sizes = shape,
       is_contiguous = True, get_device = device, storage = st, storage_offset = offset \<rparr>"

subsection \<open>An order on states, for the proofs about the watchdog\<close>

text \<open>
  \<open>s'\<close> extends \<open>s\<close>: the communicator cache, the flag and the asynchronous errors are
  the same, and every communicator aborted in \<open>s\<close> is aborted in \<open>s'\<close>.
\<close>

definition abort_extends :: "state \<Rightarrow> state \<Rightarrow> bool" where
  "abort_extends s s' =
     (m_devNCCLCommMap s' = m_devNCCLCommMap s \<and> m_blockingWait s' = m_blockingWait s \<and>
      (\<forall>p. ncclAsyncErr (comms s' p) = ncclAsyncErr (comms s p)) \<and>
      (\<forall>p. aborted (comms s p) \<longrightarrow> aborted (comms s' p)))"

section \<open>Properties\<close>

subsection \<open>Hexadecimal strings\<close>

text \<open>What the stream prints for a byte: one digit below 16, both digits from 16 on.\<close>

lemma ostream_hex_byte:
  "ostream_hex (unat (b :: byte)) =
     (if unat b < 16 then [hex_digit (unat b)] else lower_hex_of_byte b)"
proof -
  have lt: "unat b < 256" using unsigned_less [of b, where ?'a = nat] by simp
  show ?thesis
  proof (cases "unat b < 16")
    case True
    then show ?thesis by (simp add: ostream_hex.simps [of "unat b"])
  next
    case False
    with lt have "unat b div 16 < 16" by simp
    with False show ?thesis
      by (simp add: ostream_hex.simps [of "unat b"] ostream_hex.simps [of "unat b div 16"]
          lower_hex_of_byte_def)
  qed
qed

lemma fold_append_concat:
  "fold (\<lambda>i oss. oss @ f i) is acc = acc @ concat (map f is)"
  by (induction "is" arbitrary: acc) simp_all

lemma buildNcclUniqueIdStr_concat:
  assumes "length ncclID = NCCL_UNIQUE_ID_BYTES"
  shows "buildNcclUniqueIdStr ncclID = concat (map (\<lambda>b. ostream_hex (unat b)) ncclID)"
proof -
  have "map (\<lambda>i. ostream_hex (unat (ncclID ! i))) [0..<length ncclID]
        = map (\<lambda>b. ostream_hex (unat b)) ncclID"
    by (rule nth_equalityI) simp_all
  then show ?thesis
    using assms by (simp add: buildNcclUniqueIdStr_def fold_append_concat)
qed

subsection \<open>Store keys\<close>

lemma hex_digit_lower: "d < 16 \<Longrightarrow> hex_digit d \<in> set ''0123456789abcdef''"
  unfolding hex_digit_def by (rule nth_mem) simp

lemma ostream_hex_byte_digits: "set (ostream_hex (unat (b :: byte))) \<subseteq> hex_digit ` {..<16}"
proof -
  have lt: "unat b < 256" using unsigned_less [of b, where ?'a = nat] by simp
  then have d: "unat b div 16 < 16" by simp
  have m: "unat b mod 16 < 16" by simp
  show ?thesis
    unfolding ostream_hex_byte lower_hex_of_byte_def using d m by auto
qed

lemma ostream_hex_byte_chars:
  "set (ostream_hex (unat (b :: byte))) \<subseteq> set ''0123456789abcdef''"
proof -
  have "hex_digit ` {..<16} \<subseteq> set ''0123456789abcdef''"
    using hex_digit_lower by blast
  with ostream_hex_byte_digits [of b] show ?thesis by (rule subset_trans)
qed

text \<open>The string of an id is in lower-case hexadecimal digits, with nothing else in it.\<close>

lemma buildNcclUniqueIdStr_chars:
  assumes "length ncclID = NCCL_UNIQUE_ID_BYTES"
  shows "set (buildNcclUniqueIdStr ncclID) \<subseteq> set ''0123456789abcdef''"
proof -
  have "set (concat (map (\<lambda>b. ostream_hex (unat b)) ncclID)) \<subseteq> set ''0123456789abcdef''"
    using ostream_hex_byte_chars by (fastforce simp del: set_simps list.set simp add: set_concat)
  then show ?thesis by (simp only: buildNcclUniqueIdStr_concat [OF assms])
qed

text \<open>For an id without a byte below 16 the key is the one of the specification.\<close>

lemma abort_marker_key_large_bytes:
  assumes "length ncclID = NCCL_UNIQUE_ID_BYTES" and "list_all (\<lambda>b. 16 \<le> unat b) ncclID"
  shows "getNcclAbortedCommStoreKey (buildNcclUniqueIdStr ncclID) = abort_marker_key_spec ncclID"
proof -
  have "\<forall>b \<in> set ncclID. ostream_hex (unat b) = lower_hex_of_byte b"
    using assms(2) by (auto simp add: list_all_iff ostream_hex_byte)
  then have m: "map (\<lambda>b. ostream_hex (unat b)) ncclID = map lower_hex_of_byte ncclID"
    by (simp only: map_eq_conv)
  show ?thesis
    unfolding getNcclAbortedCommStoreKey_def kNCCLAbortedCommStoreKey_def
      abort_marker_key_spec_def buildNcclUniqueIdStr_concat [OF assms(1)] m
    by simp
qed

lemma getNcclId_ncclCommAbort [simp]: "getNcclId c (ncclCommAbort p s) = getNcclId c s"
  by (simp add: getNcclId_def ncclCommAbort_def)

lemma getNcclId_store_set [simp]: "getNcclId c (store_set k v s) = getNcclId c s"
  by (simp add: getNcclId_def store_set_def)

lemma store_ncclCommAbort [simp]: "store (ncclCommAbort p s) = store s"
  by (simp add: ncclCommAbort_def)

lemma abort_and_publish_keeps_marker:
  "store s k = Some [] \<Longrightarrow> store (snd (abort_and_publish store_ptr cs s)) k = Some []"
  by (induction cs arbitrary: s) (simp_all add: Let_def store_set_def)

lemma abort_and_publish_marker:
  "c \<in> set cs \<Longrightarrow>
   store (snd (abort_and_publish store_ptr cs s))
     (getNcclAbortedCommStoreKey (buildNcclUniqueIdStr (getNcclId c s))) = Some []"
proof (induction cs arbitrary: s)
  case Nil
  then show ?case by simp
next
  case (Cons a cs)
  show ?case
  proof (cases "c = a")
    case True
    then show ?thesis
      by (simp add: Let_def abort_and_publish_keeps_marker store_set_def)
  next
    case False
    with Cons.prems have "c \<in> set cs" by simp
    from Cons.IH [OF this, of "store_set (getNcclAbortedCommStoreKey (buildNcclUniqueIdStr (getNcclId a s))) [] (ncclCommAbort a s)"]
    show ?thesis by (simp add: Let_def)
  qed
qed

lemma watchdog_publish_keeps_marker:
  "store s k = Some [] \<Longrightarrow> store (watchdog_publish ids s) k = Some []"
  unfolding watchdog_publish_def
  by (induction ids arbitrary: s) (simp_all add: store_set_def)

lemma watchdog_publish_marker:
  "commId \<in> set ids \<Longrightarrow>
   store (watchdog_publish ids s) (getNcclAbortedCommStoreKey commId) = Some []"
proof (induction ids arbitrary: s)
  case Nil
  then show ?case by simp
next
  case (Cons a ids)
  show ?case
  proof (cases "commId = a")
    case True
    have "store (watchdog_publish ids (store_set (getNcclAbortedCommStoreKey a) []
            (s\<lparr> m_abortedComms := insert a (m_abortedComms s) \<rparr>))) (getNcclAbortedCommStoreKey a) = Some []"
      by (rule watchdog_publish_keeps_marker) (simp add: store_set_def)
    with True show ?thesis by (simp add: watchdog_publish_def)
  next
    case False
    with Cons.prems have "commId \<in> set ids" by simp
    from Cons.IH [OF this] show ?thesis by (simp add: watchdog_publish_def)
  qed
qed

text \<open>
  Claim C8. The claim makes the key \<open>NCCLABORTEDCOMM:\<close> followed by the hexadecimal
  representation of each byte of the id, and the specification uses that string as the
  identity of the communicator. The code prints a byte below 16 as a single digit: the id
  of 128 zero bytes has a key of 128 digits where the schema has 256, and the two different
  ids that begin with the bytes 01 10 and 11 00 have the same key, whereas their keys in
  the schema differ. The value stored under the key is empty, as the claim says
  (\<open>abort_and_publish_marker\<close>, \<open>watchdog_publish_marker\<close>), and the key is the one of
  the schema for an id without a byte below 16 (\<open>abort_marker_key_large_bytes\<close>).
\<close>

theorem abort_marker_key_unpadded:
  "getNcclAbortedCommStoreKey (buildNcclUniqueIdStr (replicate 128 0))
     = ''NCCLABORTEDCOMM:'' @ replicate 128 (CHR ''0'')
   \<and> abort_marker_key_spec (replicate 128 0) = ''NCCLABORTEDCOMM:'' @ replicate 256 (CHR ''0'')
   \<and> getNcclAbortedCommStoreKey (buildNcclUniqueIdStr (1 # 16 # replicate 126 0))
       = getNcclAbortedCommStoreKey (buildNcclUniqueIdStr (17 # 0 # replicate 126 0))
   \<and> abort_marker_key_spec (1 # 16 # replicate 126 0)
       \<noteq> abort_marker_key_spec (17 # 0 # replicate 126 0)"
proof -
  have z: "ostream_hex 0 = ''0''" "lower_hex_of_byte 0 = ''00''"
    by (simp_all add: ostream_hex.simps [of 0] lower_hex_of_byte_def hex_digit_def)
  have l: "length (replicate 128 (0 :: byte)) = NCCL_UNIQUE_ID_BYTES"
    "length (1 # 16 # replicate 126 (0 :: byte)) = NCCL_UNIQUE_ID_BYTES"
    "length (17 # 0 # replicate 126 (0 :: byte)) = NCCL_UNIQUE_ID_BYTES"
    by (simp_all add: NCCL_UNIQUE_ID_BYTES_def)
  have cz: "concat (replicate n [c]) = replicate n c" for n and c :: char
    by (induction n) simp_all
  have cz2: "concat (replicate n [c, c]) = replicate (2 * n) c" for n and c :: char
    by (induction n) simp_all
  have a: "buildNcclUniqueIdStr (replicate 128 0) = replicate 128 (CHR ''0'')"
    by (simp add: buildNcclUniqueIdStr_concat [OF l(1)] z map_replicate_const cz)
  have b: "abort_marker_key_spec (replicate 128 0) = ''NCCLABORTEDCOMM:'' @ replicate 256 (CHR ''0'')"
    by (simp add: abort_marker_key_spec_def z map_replicate_const cz2)
  have h: "ostream_hex 1 = ''1''" "ostream_hex (Suc 0) = ''1''" "ostream_hex 16 = ''10''"
    "ostream_hex 17 = ''11''"
    by (simp_all add: ostream_hex.simps [of 1] ostream_hex.simps [of "Suc 0"]
        ostream_hex.simps [of 16] ostream_hex.simps [of 17] hex_digit_def)
  have c: "buildNcclUniqueIdStr (1 # 16 # replicate 126 0)
            = buildNcclUniqueIdStr (17 # 0 # replicate 126 0)"
    by (simp add: buildNcclUniqueIdStr_concat [OF l(2)] buildNcclUniqueIdStr_concat [OF l(3)] h z)
  have d: "abort_marker_key_spec (1 # 16 # replicate 126 0)
            \<noteq> abort_marker_key_spec (17 # 0 # replicate 126 0)"
    by (simp add: abort_marker_key_spec_def lower_hex_of_byte_def hex_digit_def)
  from a b c d show ?thesis
    by (simp add: getNcclAbortedCommStoreKey_def kNCCLAbortedCommStoreKey_def)
qed

subsection \<open>Split sizes\<close>

lemma ucast_scast_id: "(ucast (scast (acc :: int32_t) :: int64_t) :: int32_t) = acc"
  by transfer (simp add: take_bit_signed_take_bit)

lemma take_bit_32_add_low:
  "take_bit 32 (signed_take_bit 31 (take_bit 64 a) + b) = take_bit 32 (a + b)" for a b :: int
proof -
  have "take_bit 32 (signed_take_bit 31 (take_bit 64 a) + b)
        = take_bit 32 (take_bit 32 (signed_take_bit 31 (take_bit 64 a)) + take_bit 32 b)"
    by (simp only: take_bit_add)
  also have "take_bit 32 (signed_take_bit 31 (take_bit 64 a)) = take_bit 32 a"
    by (simp add: take_bit_signed_take_bit)
  also have "take_bit 32 (take_bit 32 a + take_bit 32 b) = take_bit 32 (a + b)"
    by (simp only: take_bit_add)
  finally show ?thesis .
qed

lemma low_bits_add:
  "(ucast ((scast (ucast (a :: int64_t) :: int32_t) :: int64_t) + b) :: int32_t) = ucast (a + b)"
  by transfer (simp add: take_bit_signed_take_bit take_bit_32_add_low)

lemma accumulate_int_fold:
  "fold (\<lambda>x acc. ucast ((scast acc :: int64_t) + x)) xs (ucast (a :: int64_t) :: int32_t)
     = ucast (a + sum_list xs)"
proof (induction xs arbitrary: a)
  case Nil
  show ?case by simp
next
  case (Cons x xs)
  from Cons [of "a + x"] show ?case by (simp add: low_bits_add add.assoc)
qed

lemma accumulate_int_low_bits: "accumulate_int xs = ucast (sum_list xs)"
  using accumulate_int_fold [of xs 0] by (simp add: accumulate_int_def)

lemma sint_accumulate_int:
  assumes "- (2 ^ 31) \<le> sint (sum_list xs)" "sint (sum_list xs) < 2 ^ 31"
  shows "sint (accumulate_int xs) = sint (sum_list xs)"
proof -
  have "sint (ucast (sum_list xs) :: int32_t) = signed_take_bit 31 (sint (sum_list xs))"
    by transfer (simp add: signed_take_bit_take_bit signed_take_bit_signed_take_bit)
  also have "\<dots> = sint (sum_list xs)"
    using assms by (simp add: signed_take_bit_int_eq_self)
  finally show ?thesis by (simp add: accumulate_int_low_bits)
qed

lemma checkSplitSizes_empty:
  assumes "sizes t = d # ds" "0 \<le> d" "0 < group_size"
  shows "checkSplitSizes [] t group_size =
           (if d mod group_size = 0 then Inr ()
            else Inl (RuntimeError ''Tensor's dim 0 does not divide equally across group size''))"
proof -
  have "cpp_rem d group_size = d mod group_size"
    using assms by (cases "d = 0") (simp_all add: cpp_rem_def)
  with assms show ?thesis by (simp add: checkSplitSizes_def size0_def)
qed

lemma checkSplitSizes_in_range:
  assumes "split_sizes \<noteq> []" "sizes t = d # ds" "0 \<le> group_size" "group_size < 2 ^ 64"
    and "- (2 ^ 31) \<le> sint (sum_list split_sizes)" "sint (sum_list split_sizes) < 2 ^ 31"
  shows "checkSplitSizes split_sizes t group_size = Inr () \<longleftrightarrow>
           int (length split_sizes) = group_size \<and> sint (sum_list split_sizes) = d"
  using assms
  by (auto simp add: checkSplitSizes_def size0_def Let_def sint_accumulate_int)

text \<open>
  Claim C6. The claim lets the check succeed exactly when the number of splits is the group
  size and the sum of the splits, over arbitrary 64-bit values, is the size of dimension 0.
  The sum is kept in an \<^verbatim>\<open>int\<close>: two splits of \<open>2 ^ 30\<close> rows of a tensor of
  \<open>2 ^ 31\<close> rows are rejected although they sum to the size of dimension 0, and the
  splits \<open>2 ^ 32 + 3\<close> and \<open>1\<close> of a tensor of 4 rows are accepted although they do
  not. \<open>checkSplitSizes_in_range\<close> above shows that the check is the claimed one as long
  as the sum fits into an \<^verbatim>\<open>int\<close>.
\<close>

theorem checkSplitSizes_int_accumulator:
  "checkSplitSizes [1073741824, 1073741824]
      \<lparr> is_cuda = True, is_sparse = False, scalar_type = kChar, sizes = [2147483648],
        is_contiguous = True, get_device = 0, storage = 0, storage_offset = 0 \<rparr> 2
     = Inl (RuntimeError ''Split sizes doesn't match total dim 0 size'')
   \<and> sint (1073741824 :: int64_t) + sint (1073741824 :: int64_t) = 2147483648
   \<and> checkSplitSizes [4294967299, 1]
      \<lparr> is_cuda = True, is_sparse = False, scalar_type = kChar, sizes = [4],
        is_contiguous = True, get_device = 0, storage = 0, storage_offset = 0 \<rparr> 2
     = Inr ()
   \<and> sint (4294967299 :: int64_t) + sint (1 :: int64_t) = 4294967300"
  by (simp add: checkSplitSizes_def accumulate_int_def size0_def)

subsection \<open>Tensor lists\<close>

lemma check_gpu_tensors_loop_ok:
  "check_gpu_tensors_loop first alltoallv ts usedDevices = Inr () \<longleftrightarrow>
     (\<forall>t \<in> set ts. is_cuda t \<and> \<not> is_sparse t \<and> scalar_type t = scalar_type first \<and>
                    (\<not> alltoallv \<longrightarrow> sizes t = sizes first) \<and> is_contiguous t) \<and>
     (\<not> alltoallv \<longrightarrow> distinct (map get_device ts) \<and>
                        set (map get_device ts) \<inter> set usedDevices = {})"
proof (induction ts arbitrary: usedDevices)
  case Nil
  show ?case by simp
next
  case (Cons t ts)
  show ?case
  proof (cases alltoallv)
    case True
    with Cons [of usedDevices] show ?thesis by auto
  next
    case False
    with Cons [of "get_device t # usedDevices"] show ?thesis
      by (simp del: set_map) blast
  qed
qed

lemma check_gpu_tensors_loop_error:
  "check_gpu_tensors_loop first alltoallv ts usedDevices = Inr () \<or>
   (\<exists>msg. check_gpu_tensors_loop first alltoallv ts usedDevices = Inl (RuntimeError msg))"
proof (induction ts arbitrary: usedDevices)
  case Nil
  show ?case by simp
next
  case (Cons t ts)
  show ?case
  proof (cases alltoallv)
    case True
    with Cons [of usedDevices] show ?thesis by auto
  next
    case False
    with Cons [of "get_device t # usedDevices"] show ?thesis by auto
  qed
qed

lemma check_gpu_tensors_multi_ok:
  "check_gpu_tensors_multi n ts alltoallv = Inr () \<longleftrightarrow>
     ts \<noteq> [] \<and> (\<not> alltoallv \<longrightarrow> length ts \<le> n) \<and>
     (\<forall>t \<in> set ts. is_cuda t \<and> \<not> is_sparse t \<and> scalar_type t = scalar_type (hd ts) \<and>
                    (\<not> alltoallv \<longrightarrow> sizes t = sizes (hd ts)) \<and> is_contiguous t) \<and>
     (\<not> alltoallv \<longrightarrow> distinct (map get_device ts))"
  by (auto simp add: check_gpu_tensors_multi_def check_gpu_tensors_loop_ok)

lemma check_gpu_tensors_multi_error:
  "check_gpu_tensors_multi n ts alltoallv = Inr () \<or>
   (\<exists>msg. check_gpu_tensors_multi n ts alltoallv = Inl (RuntimeError msg))"
  using check_gpu_tensors_loop_error [of "hd ts" alltoallv ts "[]"]
  by (auto simp add: check_gpu_tensors_multi_def)

subsection \<open>Entry points that reject their arguments\<close>

lemma allreduce_rejects:
  "check_gpu_tensors (numGPUs s) tensors = Inl e \<Longrightarrow> allreduce tensors reduceOp s = (Inl e, s)"
  by (simp add: allreduce_def)

lemma allgather_rejects:
  "check_gpu_tensors (numGPUs s) inputTensors = Inl e \<Longrightarrow>
   allgather outputTensors inputTensors noCopy s = (Inl e, s)"
  by (simp add: allgather_def)

lemma alltoall_rejects:
  "check_gpu_tensors_multi (numGPUs s) inputTensors True = Inl e \<Longrightarrow>
   snd (alltoall outputTensors inputTensors s) = s \<and>
   (\<exists>msg. fst (alltoall outputTensors inputTensors s) = Inl (RuntimeError msg))"
  using check_gpu_tensors_multi_error [of "numGPUs s" inputTensors True]
  by (auto simp add: alltoall_def)

text \<open>
  Claim C4. The validator accepts a list exactly when it is not empty, in strict mode is
  not longer than the number of GPUs, every tensor is on a device and dense, has the scalar
  type of the first, in strict mode the shape of the first, is contiguous, and in strict
  mode the device indices are pairwise distinct. Every rejection is a
  \<^verbatim>\<open>std::runtime_error\<close>. The validator takes no state; the entry points that
  call it first (\<open>allreduce\<close> and \<open>allgather\<close> in strict mode, \<open>alltoall\<close> in
  permissive mode) return the error with the state, caches and store included, unchanged.
\<close>

theorem check_gpu_tensors_multi_validates:
  "(check_gpu_tensors_multi n ts alltoallv = Inr () \<longleftrightarrow>
      ts \<noteq> [] \<and> (\<not> alltoallv \<longrightarrow> length ts \<le> n) \<and>
      (\<forall>t \<in> set ts. is_cuda t \<and> \<not> is_sparse t \<and> scalar_type t = scalar_type (hd ts) \<and>
                     (\<not> alltoallv \<longrightarrow> sizes t = sizes (hd ts)) \<and> is_contiguous t) \<and>
      (\<not> alltoallv \<longrightarrow> distinct (map get_device ts)))
   \<and> (check_gpu_tensors_multi n ts alltoallv = Inr () \<or>
      (\<exists>msg. check_gpu_tensors_multi n ts alltoallv = Inl (RuntimeError msg)))
   \<and> (check_gpu_tensors_multi (numGPUs s) ts False \<noteq> Inr () \<longrightarrow>
        (\<exists>msg. allreduce ts reduceOp s = (Inl (RuntimeError msg), s)) \<and>
        (\<exists>msg. allgather outputTensors ts noCopy s = (Inl (RuntimeError msg), s)))
   \<and> (check_gpu_tensors_multi (numGPUs s) ts True \<noteq> Inr () \<longrightarrow>
        snd (alltoall outs ts s) = s \<and>
        (\<exists>msg. fst (alltoall outs ts s) = Inl (RuntimeError msg)))"
proof -
  have strict: "(\<exists>msg. allreduce ts reduceOp s = (Inl (RuntimeError msg), s)) \<and>
        (\<exists>msg. allgather outputTensors ts noCopy s = (Inl (RuntimeError msg), s))"
    if "check_gpu_tensors_multi (numGPUs s) ts False \<noteq> Inr ()"
  proof -
    from that check_gpu_tensors_multi_error [of "numGPUs s" ts False]
    obtain msg where "check_gpu_tensors (numGPUs s) ts = Inl (RuntimeError msg)"
      by (auto simp add: check_gpu_tensors_def)
    with allreduce_rejects allgather_rejects show ?thesis by blast
  qed
  have permissive: "snd (alltoall outs ts s) = s \<and>
        (\<exists>msg. fst (alltoall outs ts s) = Inl (RuntimeError msg))"
    if "check_gpu_tensors_multi (numGPUs s) ts True \<noteq> Inr ()"
  proof -
    from that check_gpu_tensors_multi_error [of "numGPUs s" ts True]
    obtain msg where "check_gpu_tensors_multi (numGPUs s) ts True = Inl (RuntimeError msg)"
      by auto
    then show ?thesis by (rule alltoall_rejects)
  qed
  from check_gpu_tensors_multi_ok [of n ts alltoallv]
    check_gpu_tensors_multi_error [of n ts alltoallv] strict permissive
  show ?thesis by blast
qed

theorem check_gpu_tensors_multi_validates_witness:
  "check_gpu_tensors_multi 2 [example_tensor 0 1 0 [3], example_tensor 1 2 0 [3]] False = Inr ()
   \<and> allreduce [example_tensor 0 1 0 [3], example_tensor 0 2 0 [3]] ReduceOp_SUM example_world
       = (Inl (RuntimeError ''Tensors must be on distinct GPU devices''), example_world)"
proof -
  have ok: "check_gpu_tensors_multi 2 [example_tensor 0 1 0 [3], example_tensor 1 2 0 [3]] False
              = Inr ()"
    using check_gpu_tensors_multi_validates
      [of 2 "[example_tensor 0 1 0 [3], example_tensor 1 2 0 [3]]" False]
    by (simp add: example_tensor_def)
  have "check_gpu_tensors_multi (numGPUs example_world)
          [example_tensor 0 1 0 [3], example_tensor 0 2 0 [3]] False
        = Inl (RuntimeError ''Tensors must be on distinct GPU devices'')"
    by (simp add: check_gpu_tensors_multi_def example_tensor_def example_world_def)
  then have "allreduce [example_tensor 0 1 0 [3], example_tensor 0 2 0 [3]] ReduceOp_SUM example_world
       = (Inl (RuntimeError ''Tensors must be on distinct GPU devices''), example_world)"
    by (simp add: allreduce_def check_gpu_tensors_def)
  with ok show ?thesis by simp
qed

text \<open>
  Claim C10. When the number of input tensors or of output tensors differs from the size
  of the process group, \<open>alltoall\<close> fails with an error and the state is the one it was
  called in: no cache entry, no call on a stream, no submission, nothing in the store.
\<close>

theorem alltoall_size_mismatch:
  assumes "0 \<le> m_size s" "m_size s < 2 ^ 31"
    and "int (length inputTensors) \<noteq> m_size s \<or> int (length outputTensors) \<noteq> m_size s"
  shows "alltoall outputTensors inputTensors s =
           (Inl (RuntimeError ''Number of input or output tensors are not equal to group size''), s)"
proof -
  from assms(1,2) have "u64 (m_size s) = m_size s" by (simp add: u64_def)
  with assms(3) show ?thesis by (simp add: alltoall_def)
qed

theorem alltoall_size_mismatch_witness:
  "(0 :: int) \<le> m_size (example_world\<lparr> m_size := 2 \<rparr>)
   \<and> int (length [example_tensor 0 1 0 [3]]) \<noteq> m_size (example_world\<lparr> m_size := 2 \<rparr>)
   \<and> alltoall [example_tensor 0 2 0 [3], example_tensor 0 3 0 [3]] [example_tensor 0 1 0 [3]]
        (example_world\<lparr> m_size := 2 \<rparr>)
      = (Inl (RuntimeError ''Number of input or output tensors are not equal to group size''),
         example_world\<lparr> m_size := 2 \<rparr>)"
  using alltoall_size_mismatch
    [of "example_world\<lparr> m_size := 2 \<rparr>" "[example_tensor 0 1 0 [3]]"
        "[example_tensor 0 2 0 [3], example_tensor 0 3 0 [3]]"]
  by simp

subsection \<open>The environment variable\<close>

lemma blockingWait_from_env_stoi:
  "blockingWait_from_env (Some v) =
     (if stoi v = Inr 1 then Inr True
      else if stoi v = Inr 0 then Inr False
      else Inl (RuntimeError ''Invalid value for environment variable: NCCL_BLOCKING_WAIT''))"
  by (auto simp add: blockingWait_from_env_def blockingWait_try_block_def
      split: sum.splits)

lemma stoi_01: "stoi ''01'' = Inr 1"
  by (simp add: stoi_def isspace_def isdigit_def digits_value_def digit_value_def Let_def)

lemma isdigit_cases:
  "isdigit c \<Longrightarrow> \<not> isspace c \<and> c \<noteq> CHR ''-'' \<and> c \<noteq> CHR ''+'' \<and> 0 \<le> digit_value c"
  by (auto simp add: isdigit_def isspace_def digit_value_def)

lemma digits_value_fold_nonneg:
  "list_all isdigit ds \<Longrightarrow> 0 \<le> v \<Longrightarrow> 0 \<le> fold (\<lambda>c v. 10 * v + digit_value c) ds v"
proof (induction ds arbitrary: v)
  case Nil
  then show ?case by simp
next
  case (Cons c ds)
  from Cons.prems isdigit_cases [of c] have "0 \<le> 10 * v + digit_value c" by simp
  with Cons show ?case by simp
qed

text \<open>
  On a value made of decimal digits only, \<^verbatim>\<open>std::stoi\<close> gives the number they denote,
  leading zeros included.
\<close>

lemma stoi_digits:
  assumes "ds \<noteq> []" "list_all isdigit ds"
  shows "stoi ds = (if digits_value ds \<le> 2 ^ 31 - 1 then Inr (digits_value ds)
                    else Inl out_of_range)"
proof -
  from assms obtain c cs where ds: "ds = c # cs" by (cases ds) auto
  with assms have c: "isdigit c" by simp
  note cc = isdigit_cases [OF c]
  have drop: "dropWhile isspace ds = ds" using cc by (simp add: ds)
  have "takeWhile isdigit ds = ds" using assms(2) by (simp add: list_all_iff)
  moreover have "0 \<le> digits_value ds"
    using digits_value_fold_nonneg [OF assms(2), of 0] by (simp add: digits_value_def)
  ultimately show ?thesis
    using cc assms(1) by (simp add: stoi_def drop Let_def ds)
qed

lemma ProcessGroupNCCL_blockingWait:
  "map_sum id m_blockingWait (ProcessGroupNCCL blockingWait rank group_size opTimeout world)
     = blockingWait_from_env blockingWait"
  by (simp add: ProcessGroupNCCL_def split: sum.splits)

text \<open>
  Claim C7, as stated, fails: the value \<open>01\<close> is neither \<open>1\<close> nor \<open>0\<close>, and the
  constructor succeeds with blocking wait enabled.
\<close>

theorem blockingWait_other_value_counterexample:
  "''01'' \<noteq> ''1'' \<and> ''01'' \<noteq> ''0''
   \<and> map_sum id m_blockingWait (ProcessGroupNCCL (Some ''01'') 0 2 10000 example_world) = Inr True"
  by (simp add: ProcessGroupNCCL_blockingWait blockingWait_from_env_stoi stoi_01)

text \<open>
  A value that does not begin with a digit, a sign or white space, and the empty value:
  \<^verbatim>\<open>std::stoi\<close> finds no number in it.
\<close>

lemma stoi_no_number:
  assumes "v = [] \<or> \<not> (isspace (hd v) \<or> isdigit (hd v) \<or> hd v = CHR ''+'' \<or> hd v = CHR ''-'')"
  shows "stoi v = Inl invalid_argument"
proof (cases v)
  case Nil
  then show ?thesis by (simp add: stoi_def)
next
  case (Cons c cs)
  with assms show ?thesis by (simp add: stoi_def Let_def)
qed

text \<open>
  Text after the digits is not looked at: the value \<open>1abc\<close> enables blocking wait. The
  amended claim below says nothing about such values.
\<close>

lemma blockingWait_trailing_text:
  "blockingWait_from_env (Some ''1abc'') = Inr True"
proof -
  have "stoi ''1abc'' = Inr 1"
    by (simp add: stoi_def isspace_def isdigit_def digits_value_def digit_value_def Let_def)
  then show ?thesis by (simp add: blockingWait_from_env_stoi)
qed

text \<open>
  Claim C7, amended. An unset variable leaves blocking wait disabled. A value made of
  decimal digits only enables blocking wait when the digits denote the integer 1 (\<open>1\<close>,
  \<open>01\<close>), leaves it disabled when they denote 0 (\<open>0\<close>, \<open>00\<close>), and is a fatal
  configuration error when they denote another integer. The empty value and every value
  whose first character is not a digit, a sign or white space are fatal configuration
  errors.
\<close>

theorem blockingWait_from_environment:
  "map_sum id m_blockingWait (ProcessGroupNCCL None rank group_size opTimeout world) = Inr False
   \<and> map_sum id m_blockingWait (ProcessGroupNCCL (Some ''1'') rank group_size opTimeout world)
       = Inr True
   \<and> map_sum id m_blockingWait (ProcessGroupNCCL (Some ''0'') rank group_size opTimeout world)
       = Inr False
   \<and> (v \<noteq> [] \<and> list_all isdigit v \<longrightarrow>
        map_sum id m_blockingWait (ProcessGroupNCCL (Some v) rank group_size opTimeout world) =
          (if digits_value v = 1 then Inr True
           else if digits_value v = 0 then Inr False
           else Inl (RuntimeError ''Invalid value for environment variable: NCCL_BLOCKING_WAIT'')))
   \<and> (v = [] \<or> \<not> (isspace (hd v) \<or> isdigit (hd v) \<or> hd v = CHR ''+'' \<or> hd v = CHR ''-'') \<longrightarrow>
        map_sum id m_blockingWait (ProcessGroupNCCL (Some v) rank group_size opTimeout world) =
          Inl (RuntimeError ''Invalid value for environment variable: NCCL_BLOCKING_WAIT''))"
proof -
  have unset: "blockingWait_from_env None = Inr False"
    by (simp add: blockingWait_from_env_def blockingWait_try_block_def)
  have "stoi ''1'' = Inr 1" "stoi ''0'' = Inr 0"
    by (simp_all add: stoi_def isspace_def isdigit_def digits_value_def digit_value_def Let_def)
  then have one: "blockingWait_from_env (Some ''1'') = Inr True"
    and zero: "blockingWait_from_env (Some ''0'') = Inr False"
    by (simp_all add: blockingWait_from_env_stoi)
  have digits: "blockingWait_from_env (Some v) =
          (if digits_value v = 1 then Inr True
           else if digits_value v = 0 then Inr False
           else Inl (RuntimeError ''Invalid value for environment variable: NCCL_BLOCKING_WAIT''))"
    if "v \<noteq> []" "list_all isdigit v"
    using stoi_digits [OF that] by (simp add: blockingWait_from_env_stoi)
  have none: "blockingWait_from_env (Some v) =
          Inl (RuntimeError ''Invalid value for environment variable: NCCL_BLOCKING_WAIT'')"
    if "v = [] \<or> \<not> (isspace (hd v) \<or> isdigit (hd v) \<or> hd v = CHR ''+'' \<or> hd v = CHR ''-'')"
    using stoi_no_number [OF that] by (simp add: blockingWait_from_env_stoi)
  from unset one zero digits none show ?thesis
    by (simp only: ProcessGroupNCCL_blockingWait) blast
qed

theorem blockingWait_from_environment_witness:
  "''01'' \<noteq> [] \<and> list_all isdigit ''01'' \<and> digits_value ''01'' = 1
   \<and> map_sum id m_blockingWait (ProcessGroupNCCL (Some ''01'') 0 2 10000 example_world) = Inr True
   \<and> \<not> (isspace (hd ''yes'') \<or> isdigit (hd ''yes'') \<or> hd ''yes'' = CHR ''+'' \<or> hd ''yes'' = CHR ''-'')
   \<and> map_sum id m_blockingWait (ProcessGroupNCCL (Some ''yes'') 0 2 10000 example_world)
       = Inl (RuntimeError ''Invalid value for environment variable: NCCL_BLOCKING_WAIT'')"
proof -
  have d: "''01'' \<noteq> []" "list_all isdigit ''01''" "digits_value ''01'' = 1"
    by (simp_all add: isdigit_def digits_value_def digit_value_def)
  have y: "\<not> (isspace (hd ''yes'') \<or> isdigit (hd ''yes'') \<or> hd ''yes'' = CHR ''+''
               \<or> hd ''yes'' = CHR ''-'')"
    by (simp add: isspace_def isdigit_def)
  from blockingWait_from_environment [of 0 2 10000 example_world "''01''"] d
  have "map_sum id m_blockingWait (ProcessGroupNCCL (Some ''01'') 0 2 10000 example_world)
          = Inr True" by simp
  moreover from blockingWait_from_environment [of 0 2 10000 example_world "''yes''"] y
  have "map_sum id m_blockingWait (ProcessGroupNCCL (Some ''yes'') 0 2 10000 example_world)
          = Inl (RuntimeError ''Invalid value for environment variable: NCCL_BLOCKING_WAIT'')"
    by blast
  ultimately show ?thesis using d y by blast
qed

subsection \<open>The flattener\<close>

lemma fold_max_ge: "(a :: nat) \<le> fold max xs a \<and> (\<forall>x \<in> set xs. x \<le> fold max xs a)"
proof (induction xs arbitrary: a)
  case Nil
  show ?case by simp
next
  case (Cons y ys)
  from Cons [of "max y a"] show ?case by auto
qed

lemma fresh_storage_gt: "x \<in> set used \<Longrightarrow> x < fresh_storage used"
  using fold_max_ge [of 0 used] by (auto simp add: fresh_storage_def)

lemma fresh_storage_fresh: "fresh_storage used \<notin> set used"
  using fresh_storage_gt [of "fresh_storage used" used] by auto

lemma no_copy_views_nth:
  "no_copy_views t0 ts j0 \<Longrightarrow> j < length ts \<Longrightarrow>
     is_alias_of (storage (ts ! j)) (storage t0) \<and>
     u64 (storage_offset (ts ! j)) = u64 (storage_offset t0 + int (j0 + j) * numel t0)"
proof (induction ts arbitrary: j0 j)
  case Nil
  then show ?case by simp
next
  case (Cons t ts)
  show ?case
  proof (cases j)
    case 0
    with Cons.prems show ?thesis by (simp split: if_splits)
  next
    case (Suc j')
    with Cons.prems have "no_copy_views t0 ts (Suc j0)" "j' < length ts"
      by (simp_all split: if_splits)
    from Cons.IH [OF this] Suc show ?thesis by simp
  qed
qed

lemma no_copy_views_iff:
  "no_copy_views t0 ts j0 \<longleftrightarrow>
     (\<forall>j < length ts. is_alias_of (storage (ts ! j)) (storage t0) \<and>
        u64 (storage_offset (ts ! j)) = u64 (storage_offset t0 + int (j0 + j) * numel t0))"
proof (induction ts arbitrary: j0)
  case Nil
  show ?case by simp
next
  case (Cons t ts)
  have split: "(\<forall>j < length (t # ts). P j) \<longleftrightarrow> P 0 \<and> (\<forall>j < length ts. P (Suc j))" for P
    by (auto simp add: less_Suc_eq_0_disj)
  have shift: "int (Suc j0 + j) = int (j0 + Suc j)" for j by simp
  show ?case
    unfolding split using Cons [of "Suc j0"]
    by (simp only: no_copy_views.simps shift nth_Cons_0 nth_Cons_Suc add_0_right) auto
qed

lemma flatten_loop_length:
  "flatten_loop ws rank nd pairs nc used = Inr flats \<Longrightarrow> length flats = length pairs"
proof (induction pairs arbitrary: nc used flats)
  case Nil
  then show ?case by simp
next
  case (Cons p pairs)
  obtain l ot where p: "p = (l, ot)" by (cases p)
  from Cons.prems show ?case
    unfolding p
    by (auto simp add: Let_def split: if_splits sum.splits dest: Cons.IH)
qed

lemma flatten_loop_checks:
  "flatten_loop ws rank nd pairs nc used = Inr flats \<Longrightarrow> (l, ot) \<in> set pairs \<Longrightarrow>
     int (length l) = u64 (int ws * int nd) \<and> l \<noteq> [] \<and> (\<forall>t \<in> set l. numel t = numel ot)"
proof (induction pairs arbitrary: nc used flats)
  case Nil
  then show ?case by simp
next
  case (Cons p pairs)
  obtain l' ot' where p: "p = (l', ot')" by (cases p)
  from Cons.prems show ?case
    unfolding p
    by (auto simp add: Let_def list_ex_iff split: if_splits sum.splits dest: Cons.IH)
qed

text \<open>What the loop over the devices returns for the device at position \<open>k\<close>.\<close>

lemma flatten_loop_nth:
  assumes "flatten_loop ws rank nd pairs nc used = Inr flats" "k < length pairs"
  shows "if nc \<and> (\<forall>k' \<le> k. no_copy_device (fst (pairs ! k')) (snd (pairs ! k')) rank)
         then flats ! k = flat_view (fst (pairs ! k) ! 0) (snd (pairs ! k)) ws
         else (\<exists>used'. set used \<subseteq> set used' \<and>
                 newLikeFlat (fst (pairs ! k)) (snd (pairs ! k)) ws used' = Inr (flats ! k))"
  using assms
proof (induction pairs arbitrary: nc used flats k)
  case Nil
  then show ?case by simp
next
  case (Cons p pairs)
  obtain l ot where p: "p = (l, ot)" by (cases p)
  define nc' where "nc' = (if nc then no_copy_device l ot rank else nc)"
  from Cons.prems(1) obtain flat rest where
    flat: "(if nc' then Inr (flat_view (l ! 0) ot ws) else newLikeFlat l ot ws used) = Inr flat"
    and rest: "flatten_loop ws rank nd pairs nc' (storage flat # used) = Inr rest"
    and flats: "flats = flat # rest"
    unfolding p nc'_def
    by (auto simp add: Let_def split: if_splits sum.splits)
  show ?case
  proof (cases k)
    case 0
    with flat flats show ?thesis
      unfolding p nc'_def by (auto split: if_splits)
  next
    case (Suc k')
    with Cons.prems(2) have k': "k' < length pairs" by simp
    have all: "(\<forall>j \<le> Suc k'. P j) \<longleftrightarrow> P 0 \<and> (\<forall>j \<le> k'. P (Suc j))" for P
      by (metis Suc_le_mono le0 not0_implies_Suc)
    from Cons.IH [OF rest k'] show ?thesis
      unfolding Suc flats p nc'_def
      by (auto simp add: all split: if_splits)
  qed
qed

lemma flatten_for_scatter_gather_device:
  assumes flat: "flatten_for_scatter_gather tensor_lists other ws rank nc = Inr flats"
    and i: "i < length tensor_lists"
  shows "length other = length tensor_lists" "length flats = length tensor_lists"
    "int (length (tensor_lists ! i)) = u64 (int ws * int (length tensor_lists))" "tensor_lists ! i \<noteq> []"
    "\<forall>t \<in> set (tensor_lists ! i). numel t = numel (other ! i)"
    "(no_copy_device (tensor_lists ! i) (other ! i) rank \<and>
        flats ! i = flat_view (tensor_lists ! i ! 0) (other ! i) ws) \<or>
     (\<forall>t \<in> set (tensor_lists ! i). storage (flats ! i) \<noteq> storage t)"
proof -
  let ?used = "map storage (concat tensor_lists) @ map storage other"
  from flat have len: "length tensor_lists = length other"
    and loop: "flatten_loop ws rank (length tensor_lists) (zip tensor_lists other) nc ?used = Inr flats"
    by (simp_all add: flatten_for_scatter_gather_def split: if_splits)
  from len show "length other = length tensor_lists" by simp
  from flatten_loop_length [OF loop] len show "length flats = length tensor_lists" by simp
  from i len have nth: "zip tensor_lists other ! i = (tensor_lists ! i, other ! i)" by simp
  from i len have mem: "(tensor_lists ! i, other ! i) \<in> set (zip tensor_lists other)"
    by (metis nth nth_mem length_zip min.idem)
  from flatten_loop_checks [OF loop mem]
  show "int (length (tensor_lists ! i)) = u64 (int ws * int (length tensor_lists))" "tensor_lists ! i \<noteq> []"
    "\<forall>t \<in> set (tensor_lists ! i). numel t = numel (other ! i)"
    by simp_all
  from i len have ik: "i < length (zip tensor_lists other)" by simp
  show "(no_copy_device (tensor_lists ! i) (other ! i) rank \<and>
        flats ! i = flat_view (tensor_lists ! i ! 0) (other ! i) ws) \<or>
     (\<forall>t \<in> set (tensor_lists ! i). storage (flats ! i) \<noteq> storage t)"
  proof (cases "nc \<and> (\<forall>k' \<le> i. no_copy_device (fst (zip tensor_lists other ! k'))
                                   (snd (zip tensor_lists other ! k')) rank)")
    case True
    with flatten_loop_nth [OF loop ik] have "flats ! i = flat_view (tensor_lists ! i ! 0) (other ! i) ws"
      by (simp add: nth)
    moreover from True have "no_copy_device (tensor_lists ! i) (other ! i) rank"
      using nth by (metis fst_conv snd_conv le_refl)
    ultimately show ?thesis by simp
  next
    case False
    with flatten_loop_nth [OF loop ik] obtain used' where
      sub: "set ?used \<subseteq> set used'" and new: "newLikeFlat (tensor_lists ! i) (other ! i) ws used' = Inr (flats ! i)"
      by (auto simp add: nth)
    have st: "storage (flats ! i) = fresh_storage used'"
    proof (cases "list_ex (\<lambda>t. get_device t \<noteq> get_device (tensor_lists ! i ! 0)) (tensor_lists ! i)")
      case True
      with new show ?thesis by (simp add: newLikeFlat_def)
    next
      case False
      with new have "flats ! i = (tensor_lists ! i ! 0)
          \<lparr> sizes := [u64 (int ws * numel (other ! i))], is_contiguous := True,
            storage := fresh_storage used', storage_offset := 0 \<rparr>"
        by (simp add: newLikeFlat_def)
      then show ?thesis by simp
    qed
    have "storage (flats ! i) \<noteq> storage t" if "t \<in> set (tensor_lists ! i)" for t
    proof -
      from that i have "storage t \<in> set ?used" by (auto intro: nth_mem)
      with sub have "storage t \<in> set used'" by blast
      with fresh_storage_fresh [of used'] st show ?thesis by auto
    qed
    then show ?thesis by blast
  qed
qed

text \<open>
  What the flattener does with \<open>no_copy\<close>: the result for the device at position \<open>i\<close> is
  on the storage of the first tensor of its list exactly when \<open>no_copy\<close> was requested and
  the checks hold for this device and for every device before it.
\<close>

lemma flatten_view_iff:
  assumes flat: "flatten_for_scatter_gather tensor_lists other ws rank nc = Inr flats"
    and i: "i < length tensor_lists"
  shows "storage (flats ! i) = storage (tensor_lists ! i ! 0) \<longleftrightarrow>
           nc \<and> (\<forall>k \<le> i. no_copy_device (tensor_lists ! k) (other ! k) rank)"
proof -
  let ?used = "map storage (concat tensor_lists) @ map storage other"
  from flat have len: "length tensor_lists = length other"
    and loop: "flatten_loop ws rank (length tensor_lists) (zip tensor_lists other) nc ?used
                 = Inr flats"
    by (simp_all add: flatten_for_scatter_gather_def split: if_splits)
  from i len have ik: "i < length (zip tensor_lists other)" by simp
  have nth: "zip tensor_lists other ! k = (tensor_lists ! k, other ! k)" if "k \<le> i" for k
    using that i len by simp
  have cond: "(\<forall>k' \<le> i. no_copy_device (fst (zip tensor_lists other ! k'))
                            (snd (zip tensor_lists other ! k')) rank)
              \<longleftrightarrow> (\<forall>k \<le> i. no_copy_device (tensor_lists ! k) (other ! k) rank)"
    using nth by simp
  note d = flatten_for_scatter_gather_device [OF flat i]
  from d(4) have mem: "tensor_lists ! i ! 0 \<in> set (tensor_lists ! i)" by simp
  show ?thesis
  proof (cases "nc \<and> (\<forall>k \<le> i. no_copy_device (tensor_lists ! k) (other ! k) rank)")
    case True
    with flatten_loop_nth [OF loop ik] cond
    have "flats ! i = flat_view (tensor_lists ! i ! 0) (other ! i) ws"
      by (simp add: nth)
    with True show ?thesis by (simp add: flat_view_def)
  next
    case False
    with flatten_loop_nth [OF loop ik] cond obtain used' where
      sub: "set ?used \<subseteq> set used'"
      and new: "newLikeFlat (tensor_lists ! i) (other ! i) ws used' = Inr (flats ! i)"
      by (auto simp add: nth)
    have st: "storage (flats ! i) = fresh_storage used'"
    proof (cases "list_ex (\<lambda>t. get_device t \<noteq> get_device (tensor_lists ! i ! 0)) (tensor_lists ! i)")
      case True
      with new show ?thesis by (simp add: newLikeFlat_def)
    next
      case False
      with new have "flats ! i = (tensor_lists ! i ! 0)
          \<lparr> sizes := [u64 (int ws * numel (other ! i))], is_contiguous := True,
            storage := fresh_storage used', storage_offset := 0 \<rparr>"
        by (simp add: newLikeFlat_def)
      then show ?thesis by simp
    qed
    from mem i have "storage (tensor_lists ! i ! 0) \<in> set ?used" by (auto intro: nth_mem)
    with sub have "storage (tensor_lists ! i ! 0) \<in> set used'" by blast
    with fresh_storage_fresh [of used'] st have "storage (flats ! i) \<noteq> storage (tensor_lists ! i ! 0)"
      by auto
    with False show ?thesis by blast
  qed
qed

text \<open>
  Claim C3. The claim decides for each device by the checks (a) and (b) of that device.
  The flattener keeps one flag for the whole call: once a device fails a check, the flag
  stays false for the devices after it. Here, with two devices of one process, the list of
  device 1 holds two views at offsets 0 and 2 of one storage and the other tensor of
  device 1 has its own storage, so both checks hold for device 1; the list of device 0
  holds two tensors on different storages. The result for device 1 is a fresh allocation
  (storage 10), not a view of storage 3. \<open>flatten_view_iff\<close> above gives the rule the
  code follows.
\<close>

theorem flatten_no_copy_dropped_for_later_devices:
  "flatten_for_scatter_gather
      [[\<lparr> is_cuda = True, is_sparse = False, scalar_type = kFloat, sizes = [2],
          is_contiguous = True, get_device = 0, storage = 1, storage_offset = 0 \<rparr>,
        \<lparr> is_cuda = True, is_sparse = False, scalar_type = kFloat, sizes = [2],
          is_contiguous = True, get_device = 0, storage = 2, storage_offset = 0 \<rparr>],
       [\<lparr> is_cuda = True, is_sparse = False, scalar_type = kFloat, sizes = [2],
          is_contiguous = True, get_device = 1, storage = 3, storage_offset = 0 \<rparr>,
        \<lparr> is_cuda = True, is_sparse = False, scalar_type = kFloat, sizes = [2],
          is_contiguous = True, get_device = 1, storage = 3, storage_offset = 2 \<rparr>]]
      [\<lparr> is_cuda = True, is_sparse = False, scalar_type = kFloat, sizes = [2],
         is_contiguous = True, get_device = 0, storage = 7, storage_offset = 0 \<rparr>,
       \<lparr> is_cuda = True, is_sparse = False, scalar_type = kFloat, sizes = [2],
         is_contiguous = True, get_device = 1, storage = 8, storage_offset = 0 \<rparr>]
      1 0 True
     = Inr [\<lparr> is_cuda = True, is_sparse = False, scalar_type = kFloat, sizes = [2],
              is_contiguous = True, get_device = 0, storage = 9, storage_offset = 0 \<rparr>,
            \<lparr> is_cuda = True, is_sparse = False, scalar_type = kFloat, sizes = [2],
              is_contiguous = True, get_device = 1, storage = 10, storage_offset = 0 \<rparr>]
   \<and> no_copy_device
        [\<lparr> is_cuda = True, is_sparse = False, scalar_type = kFloat, sizes = [2],
           is_contiguous = True, get_device = 1, storage = 3, storage_offset = 0 \<rparr>,
         \<lparr> is_cuda = True, is_sparse = False, scalar_type = kFloat, sizes = [2],
           is_contiguous = True, get_device = 1, storage = 3, storage_offset = 2 \<rparr>]
        \<lparr> is_cuda = True, is_sparse = False, scalar_type = kFloat, sizes = [2],
          is_contiguous = True, get_device = 1, storage = 8, storage_offset = 0 \<rparr> 0"
  by (simp add: flatten_for_scatter_gather_def newLikeFlat_def fresh_storage_def u64_def
      numel_def no_copy_device_def is_alias_of_def flat_view_def)

subsection \<open>The post hook of allgather\<close>

lemma allgather_post_device_break:
  "j < length outs \<Longrightarrow>
   is_alias_of (storage flat) (storage (outs ! j)) \<Longrightarrow>
   u64 (storage_offset (outs ! j)) = u64 (storage_offset (outs ! 0) + numel (outs ! j) * int j) \<Longrightarrow>
   allgather_post_device outs flat st (j # js) = ([], None)"
  by simp

lemma allgather_post_device_all:
  "\<forall>j \<in> set js. j < length outs \<and> \<not> is_alias_of (storage flat) (storage (outs ! j)) \<Longrightarrow>
   allgather_post_device outs flat st js =
     (concat (map (\<lambda>j. [RecordStream (storage (outs ! j)) st, TensorCopy (outs ! j) flat j]) js),
      None)"
  by (induction js) simp_all

text \<open>
  The storage of a flattened output that is not a view on the first tensor of its list is
  the storage of no output tensor, of any device.
\<close>

lemma flatten_for_scatter_gather_fresh:
  assumes flat: "flatten_for_scatter_gather tensor_lists other ws rank nc = Inr flats"
    and i: "i < length tensor_lists"
  shows "(no_copy_device (tensor_lists ! i) (other ! i) rank \<and>
            flats ! i = flat_view (tensor_lists ! i ! 0) (other ! i) ws) \<or>
         (\<forall>t \<in> set (concat tensor_lists). storage (flats ! i) \<noteq> storage t)"
proof -
  let ?used = "map storage (concat tensor_lists) @ map storage other"
  from flat have len: "length tensor_lists = length other"
    and loop: "flatten_loop ws rank (length tensor_lists) (zip tensor_lists other) nc ?used = Inr flats"
    by (simp_all add: flatten_for_scatter_gather_def split: if_splits)
  from i len have nth: "zip tensor_lists other ! i = (tensor_lists ! i, other ! i)" by simp
  from i len have ik: "i < length (zip tensor_lists other)" by simp
  show ?thesis
  proof (cases "nc \<and> (\<forall>k' \<le> i. no_copy_device (fst (zip tensor_lists other ! k'))
                                   (snd (zip tensor_lists other ! k')) rank)")
    case True
    with flatten_loop_nth [OF loop ik] have "flats ! i = flat_view (tensor_lists ! i ! 0) (other ! i) ws"
      by (simp add: nth)
    moreover from True have "no_copy_device (tensor_lists ! i) (other ! i) rank"
      using nth by (metis fst_conv snd_conv le_refl)
    ultimately show ?thesis by simp
  next
    case False
    with flatten_loop_nth [OF loop ik] obtain used' where
      sub: "set ?used \<subseteq> set used'" and new: "newLikeFlat (tensor_lists ! i) (other ! i) ws used' = Inr (flats ! i)"
      by (auto simp add: nth)
    have st: "storage (flats ! i) = fresh_storage used'"
    proof (cases "list_ex (\<lambda>t. get_device t \<noteq> get_device (tensor_lists ! i ! 0)) (tensor_lists ! i)")
      case True
      with new show ?thesis by (simp add: newLikeFlat_def)
    next
      case False
      with new have "flats ! i = (tensor_lists ! i ! 0)
          \<lparr> sizes := [u64 (int ws * numel (other ! i))], is_contiguous := True,
            storage := fresh_storage used', storage_offset := 0 \<rparr>"
        by (simp add: newLikeFlat_def)
      then show ?thesis by simp
    qed
    have "storage (flats ! i) \<noteq> storage t" if "t \<in> set (concat tensor_lists)" for t
    proof -
      from that have "storage t \<in> set ?used" by simp
      with sub have "storage t \<in> set used'" by blast
      with fresh_storage_fresh [of used'] st show ?thesis by auto
    qed
    then show ?thesis by blast
  qed
qed

text \<open>
  After the flattener, for each device: either every output tensor of the device aliases the
  flattened output at the matching offset, or the flattened output is on a storage of its
  own.
\<close>

lemma flatten_device_alias_cases:
  assumes flat: "flatten_for_scatter_gather outputTensors inputTensors world_size rank noCopy
                   = Inr outputFlattened"
    and i: "i < length outputTensors"
  shows "(\<forall>k < length (outputTensors ! i).
            is_alias_of (storage (outputFlattened ! i)) (storage (outputTensors ! i ! k)) \<and>
            u64 (storage_offset (outputTensors ! i ! k)) =
              u64 (storage_offset (outputTensors ! i ! 0) + numel (outputTensors ! i ! k) * int k))
         \<or> (\<forall>t \<in> set (concat outputTensors). storage (outputFlattened ! i) \<noteq> storage t)"
proof -
  let ?l = "outputTensors ! i" and ?f = "outputFlattened ! i"
  note d = flatten_for_scatter_gather_device [OF flat i]
  from d(4) have pos: "0 < length ?l" by simp
  from flatten_for_scatter_gather_fresh [OF flat i] show ?thesis
  proof
    assume v: "no_copy_device ?l (inputTensors ! i) rank \<and>
               ?f = flat_view (?l ! 0) (inputTensors ! i) world_size"
    then have views: "no_copy_views (?l ! 0) ?l 0"
      by (auto simp add: no_copy_device_def Let_def split: if_splits)
    have st: "storage ?f = storage (?l ! 0)" using v by (simp add: flat_view_def)
    have "is_alias_of (storage ?f) (storage (?l ! k)) \<and>
              u64 (storage_offset (?l ! k)) =
                u64 (storage_offset (?l ! 0) + numel (?l ! k) * int k)" if "k < length ?l" for k
    proof -
      from that d(5) have "numel (?l ! k) = numel (inputTensors ! i)" by simp
      moreover from pos d(5) have "numel (?l ! 0) = numel (inputTensors ! i)" by simp
      ultimately have "numel (?l ! k) = numel (?l ! 0)" by simp
      with no_copy_views_nth [OF views that] st show ?thesis
        by (simp add: is_alias_of_def mult.commute)
    qed
    then show ?thesis by blast
  next
    assume "\<forall>t \<in> set (concat outputTensors). storage ?f \<noteq> storage t"
    then show ?thesis by blast
  qed
qed

text \<open>The calls of the hook for one device, after the flattener.\<close>

lemma allgather_post_device_after_flatten:
  assumes flat: "flatten_for_scatter_gather outputTensors inputTensors world_size rank noCopy
                   = Inr outputFlattened"
    and i: "i < length outputTensors"
  shows "allgather_post_device (outputTensors ! i) (outputFlattened ! i) ncclStream
           [0..<length (outputTensors ! 0)] =
         (concat (map (\<lambda>j.
            if is_alias_of (storage (outputFlattened ! i)) (storage (outputTensors ! i ! j)) \<and>
               u64 (storage_offset (outputTensors ! i ! j)) =
                 u64 (storage_offset (outputTensors ! i ! 0) +
                      numel (outputTensors ! i ! j) * int j)
            then []
            else [RecordStream (storage (outputTensors ! i ! j)) ncclStream,
                  TensorCopy (outputTensors ! i ! j) (outputFlattened ! i) j])
            [0..<length (outputTensors ! i)]), None)"
proof -
  let ?l = "outputTensors ! i" and ?f = "outputFlattened ! i"
  from i have i0: "0 < length outputTensors" by (cases outputTensors) simp_all
  note d = flatten_for_scatter_gather_device [OF flat i]
  note d0 = flatten_for_scatter_gather_device [OF flat i0]
  from d(3) d0(3) have m: "length (outputTensors ! 0) = length ?l" by simp
  from d(4) have pos: "0 < length ?l" by simp
  from flatten_device_alias_cases [OF flat i] show ?thesis
  proof
    assume ok: "\<forall>k < length ?l. is_alias_of (storage ?f) (storage (?l ! k)) \<and>
            u64 (storage_offset (?l ! k)) = u64 (storage_offset (?l ! 0) + numel (?l ! k) * int k)"
    have upt: "[0..<length ?l] = 0 # [1..<length ?l]" using pos by (simp add: upt_conv_Cons)
    have "allgather_post_device ?l ?f ncclStream (0 # [1..<length ?l]) = ([], None)"
      using ok [rule_format, OF pos] pos by (intro allgather_post_device_break) simp_all
    then have lhs: "allgather_post_device ?l ?f ncclStream [0..<length ?l] = ([], None)"
      by (simp only: upt)
    have "concat (map (\<lambda>j.
            if is_alias_of (storage ?f) (storage (?l ! j)) \<and>
               u64 (storage_offset (?l ! j)) = u64 (storage_offset (?l ! 0) + numel (?l ! j) * int j)
            then []
            else [RecordStream (storage (?l ! j)) ncclStream, TensorCopy (?l ! j) ?f j])
            [0..<length ?l]) = []"
      using ok by simp
    with lhs show ?thesis by (simp only: m)
  next
    assume fresh: "\<forall>t \<in> set (concat outputTensors). storage ?f \<noteq> storage t"
    have "storage ?f \<noteq> storage (?l ! k)" if "k < length ?l" for k
    proof -
      from i have "?l \<in> set outputTensors" by simp
      with that have "?l ! k \<in> set (concat outputTensors)"
        by (simp only: set_concat) (blast intro: nth_mem)
      with fresh show ?thesis by blast
    qed
    then have na: "\<forall>k \<in> set [0..<length ?l]. k < length ?l \<and>
                     \<not> is_alias_of (storage ?f) (storage (?l ! k))"
      by (simp add: is_alias_of_def)
    have "map (\<lambda>j.
            if is_alias_of (storage ?f) (storage (?l ! j)) \<and>
               u64 (storage_offset (?l ! j)) = u64 (storage_offset (?l ! 0) + numel (?l ! j) * int j)
            then []
            else [RecordStream (storage (?l ! j)) ncclStream, TensorCopy (?l ! j) ?f j])
            [0..<length ?l]
        = map (\<lambda>j. [RecordStream (storage (?l ! j)) ncclStream, TensorCopy (?l ! j) ?f j])
            [0..<length ?l]"
      using na by (intro map_cong) simp_all
    with allgather_post_device_all [OF na, of ncclStream] show ?thesis
      by (simp only: m)
  qed
qed

lemma allgather_post_loop_all:
  "\<forall>i \<in> set idx. allgather_post_device (outs ! i) (flat ! i) (streams ! i)
                     [0..<length (outs ! 0)] = (f i, None) \<Longrightarrow>
   allgather_post_loop outs flat streams idx = (concat (map f idx), None)"
  by (induction idx) (auto split: prod.splits option.splits)

text \<open>After the flattener the hook throws nothing, and its calls are those of the devices.\<close>

lemma allgather_post_after_flatten:
  assumes flat: "flatten_for_scatter_gather outputTensors inputTensors world_size rank noCopy
             = Inr outputFlattened"
  shows "allgather_post outputTensors outputFlattened ncclStreams =
     (concat (map (\<lambda>i. concat (map (\<lambda>j.
        if is_alias_of (storage (outputFlattened ! i)) (storage (outputTensors ! i ! j)) \<and>
           u64 (storage_offset (outputTensors ! i ! j)) =
             u64 (storage_offset (outputTensors ! i ! 0) + numel (outputTensors ! i ! j) * int j)
        then []
        else [RecordStream (storage (outputTensors ! i ! j)) (ncclStreams ! i),
              TensorCopy (outputTensors ! i ! j) (outputFlattened ! i) j])
        [0..<length (outputTensors ! i)])) [0..<length outputTensors]), None)"
  unfolding allgather_post_def
  by (intro allgather_post_loop_all ballI allgather_post_device_after_flatten [OF flat]) simp

lemma allgather_post_copy_iff:
  assumes flat: "flatten_for_scatter_gather outputTensors inputTensors world_size rank noCopy
                   = Inr outputFlattened"
    and i: "i < length outputTensors" and j: "j < length (outputTensors ! i)"
  shows "TensorCopy (outputTensors ! i ! j) (outputFlattened ! i) j
          \<in> set (fst (allgather_post outputTensors outputFlattened ncclStreams))
        \<longleftrightarrow> \<not> (is_alias_of (storage (outputFlattened ! i)) (storage (outputTensors ! i ! j)) \<and>
               u64 (storage_offset (outputTensors ! i ! j)) =
                 u64 (storage_offset (outputTensors ! i ! 0) +
                      numel (outputTensors ! i ! j) * int j))"
proof -
  define aliased where "aliased = (\<lambda>i j.
    is_alias_of (storage (outputFlattened ! i)) (storage (outputTensors ! i ! j)) \<and>
    u64 (storage_offset (outputTensors ! i ! j)) =
      u64 (storage_offset (outputTensors ! i ! 0) + numel (outputTensors ! i ! j) * int j))"
  define g where "g = (\<lambda>i j. if aliased i j then []
    else [RecordStream (storage (outputTensors ! i ! j)) (ncclStreams ! i),
          TensorCopy (outputTensors ! i ! j) (outputFlattened ! i) j])"
  let ?copy = "TensorCopy (outputTensors ! i ! j) (outputFlattened ! i) j"
  have eq: "allgather_post outputTensors outputFlattened ncclStreams =
      (concat (map (\<lambda>i. concat (map (g i) [0..<length (outputTensors ! i)]))
                 [0..<length outputTensors]), None)"
    unfolding g_def aliased_def by (rule allgather_post_after_flatten [OF flat])
  have memb: "?copy \<in> set (fst (allgather_post outputTensors outputFlattened ncclStreams)) \<longleftrightarrow>
      (\<exists>i' < length outputTensors. \<exists>j' < length (outputTensors ! i'). ?copy \<in> set (g i' j'))"
    unfolding eq by (simp add: Bex_def)
  have "(\<exists>i' < length outputTensors. \<exists>j' < length (outputTensors ! i'). ?copy \<in> set (g i' j'))
          \<longleftrightarrow> \<not> aliased i j"
  proof
    assume "\<exists>i' < length outputTensors. \<exists>j' < length (outputTensors ! i'). ?copy \<in> set (g i' j')"
    then obtain i' j' where i': "i' < length outputTensors"
      and j': "j' < length (outputTensors ! i')" and c: "?copy \<in> set (g i' j')"
      by blast
    from c have na: "\<not> aliased i' j'" by (cases "aliased i' j'") (simp_all add: g_def)
    with c have f: "outputFlattened ! i' = outputFlattened ! i" by (simp add: g_def)
    from flatten_device_alias_cases [OF flat i'] j' na
    have "\<forall>t \<in> set (concat outputTensors). storage (outputFlattened ! i') \<noteq> storage t"
      unfolding aliased_def by blast
    moreover from i have "outputTensors ! i \<in> set outputTensors" by simp
    with j have "outputTensors ! i ! j \<in> set (concat outputTensors)"
      by (simp only: set_concat) (blast intro: nth_mem)
    ultimately have "storage (outputFlattened ! i) \<noteq> storage (outputTensors ! i ! j)"
      using f by (simp only:) blast
    then show "\<not> aliased i j" by (simp add: aliased_def is_alias_of_def)
  next
    assume "\<not> aliased i j"
    then have "?copy \<in> set (g i j)" by (simp add: g_def)
    with i j show "\<exists>i' < length outputTensors. \<exists>j' < length (outputTensors ! i'). ?copy \<in> set (g i' j')"
      by blast
  qed
  with memb have "?copy \<in> set (fst (allgather_post outputTensors outputFlattened ncclStreams))
      \<longleftrightarrow> \<not> aliased i j"
    by (rule trans)
  then show ?thesis unfolding aliased_def .
qed


text \<open>
  Claim C5. The post hook of \<open>allgather\<close>, on the flattened outputs that the flattener
  returned for these output tensors, throws nothing, and its calls are, device by device
  and slot by slot in order, one copy of the slice \<open>outputFlattened[i][j]\<close> into
  \<open>outputTensors[i][j]\<close> (after recording the stream) for each output tensor that does
  not already alias the flattened storage at the matching offset, and nothing for one that
  does. So the hook copies into \<open>outputTensors[i][j]\<close> exactly when that tensor does not
  alias correctly. The loop leaves at the first slot that aliases; after the flattener,
  either every slot of a device aliases or none does.
\<close>

theorem allgather_post_copies:
  assumes flat: "flatten_for_scatter_gather outputTensors inputTensors world_size rank noCopy
                   = Inr outputFlattened"
  shows "allgather_post outputTensors outputFlattened ncclStreams =
     (concat (map (\<lambda>i. concat (map (\<lambda>j.
        if is_alias_of (storage (outputFlattened ! i)) (storage (outputTensors ! i ! j)) \<and>
           u64 (storage_offset (outputTensors ! i ! j)) =
             u64 (storage_offset (outputTensors ! i ! 0) + numel (outputTensors ! i ! j) * int j)
        then []
        else [RecordStream (storage (outputTensors ! i ! j)) (ncclStreams ! i),
              TensorCopy (outputTensors ! i ! j) (outputFlattened ! i) j])
        [0..<length (outputTensors ! i)])) [0..<length outputTensors]), None)
   \<and> (\<forall>i < length outputTensors. \<forall>j < length (outputTensors ! i).
        TensorCopy (outputTensors ! i ! j) (outputFlattened ! i) j
          \<in> set (fst (allgather_post outputTensors outputFlattened ncclStreams))
        \<longleftrightarrow> \<not> (is_alias_of (storage (outputFlattened ! i)) (storage (outputTensors ! i ! j)) \<and>
               u64 (storage_offset (outputTensors ! i ! j)) =
                 u64 (storage_offset (outputTensors ! i ! 0) +
                      numel (outputTensors ! i ! j) * int j)))"
  using allgather_post_after_flatten [OF flat, of ncclStreams]
    allgather_post_copy_iff [OF flat, of _ _ ncclStreams]
  by (intro conjI allI impI)

theorem allgather_post_copies_witness:
  "flatten_for_scatter_gather
      [[\<lparr> is_cuda = True, is_sparse = False, scalar_type = kFloat, sizes = [3],
          is_contiguous = True, get_device = 0, storage = 1, storage_offset = 0 \<rparr>,
        \<lparr> is_cuda = True, is_sparse = False, scalar_type = kFloat, sizes = [3],
          is_contiguous = True, get_device = 0, storage = 2, storage_offset = 0 \<rparr>]]
      [\<lparr> is_cuda = True, is_sparse = False, scalar_type = kFloat, sizes = [3],
         is_contiguous = True, get_device = 0, storage = 3, storage_offset = 0 \<rparr>]
      2 0 False
     = Inr [\<lparr> is_cuda = True, is_sparse = False, scalar_type = kFloat, sizes = [6],
              is_contiguous = True, get_device = 0, storage = 4, storage_offset = 0 \<rparr>]
   \<and> allgather_post
        [[\<lparr> is_cuda = True, is_sparse = False, scalar_type = kFloat, sizes = [3],
            is_contiguous = True, get_device = 0, storage = 1, storage_offset = 0 \<rparr>,
          \<lparr> is_cuda = True, is_sparse = False, scalar_type = kFloat, sizes = [3],
            is_contiguous = True, get_device = 0, storage = 2, storage_offset = 0 \<rparr>]]
        [\<lparr> is_cuda = True, is_sparse = False, scalar_type = kFloat, sizes = [6],
           is_contiguous = True, get_device = 0, storage = 4, storage_offset = 0 \<rparr>]
        [PoolStream 0]
      = ([RecordStream 1 (PoolStream 0),
          TensorCopy
            \<lparr> is_cuda = True, is_sparse = False, scalar_type = kFloat, sizes = [3],
              is_contiguous = True, get_device = 0, storage = 1, storage_offset = 0 \<rparr>
            \<lparr> is_cuda = True, is_sparse = False, scalar_type = kFloat, sizes = [6],
              is_contiguous = True, get_device = 0, storage = 4, storage_offset = 0 \<rparr> 0,
          RecordStream 2 (PoolStream 0),
          TensorCopy
            \<lparr> is_cuda = True, is_sparse = False, scalar_type = kFloat, sizes = [3],
              is_contiguous = True, get_device = 0, storage = 2, storage_offset = 0 \<rparr>
            \<lparr> is_cuda = True, is_sparse = False, scalar_type = kFloat, sizes = [6],
              is_contiguous = True, get_device = 0, storage = 4, storage_offset = 0 \<rparr> 1],
         None)
   \<and> TensorCopy
        \<lparr> is_cuda = True, is_sparse = False, scalar_type = kFloat, sizes = [3],
          is_contiguous = True, get_device = 0, storage = 2, storage_offset = 0 \<rparr>
        \<lparr> is_cuda = True, is_sparse = False, scalar_type = kFloat, sizes = [6],
          is_contiguous = True, get_device = 0, storage = 4, storage_offset = 0 \<rparr> 1
      \<in> set (fst (allgather_post
          [[\<lparr> is_cuda = True, is_sparse = False, scalar_type = kFloat, sizes = [3],
              is_contiguous = True, get_device = 0, storage = 1, storage_offset = 0 \<rparr>,
            \<lparr> is_cuda = True, is_sparse = False, scalar_type = kFloat, sizes = [3],
              is_contiguous = True, get_device = 0, storage = 2, storage_offset = 0 \<rparr>]]
          [\<lparr> is_cuda = True, is_sparse = False, scalar_type = kFloat, sizes = [6],
             is_contiguous = True, get_device = 0, storage = 4, storage_offset = 0 \<rparr>]
          [PoolStream 0]))"
proof -
  let ?a0 = "\<lparr> is_cuda = True, is_sparse = False, scalar_type = kFloat, sizes = [3],
          is_contiguous = True, get_device = 0, storage = 1, storage_offset = 0 \<rparr>"
  let ?a1 = "\<lparr> is_cuda = True, is_sparse = False, scalar_type = kFloat, sizes = [3],
          is_contiguous = True, get_device = 0, storage = 2, storage_offset = 0 \<rparr>"
  let ?inp = "\<lparr> is_cuda = True, is_sparse = False, scalar_type = kFloat, sizes = [3],
         is_contiguous = True, get_device = 0, storage = 3, storage_offset = 0 \<rparr>"
  let ?f = "\<lparr> is_cuda = True, is_sparse = False, scalar_type = kFloat, sizes = [6],
              is_contiguous = True, get_device = 0, storage = 4, storage_offset = 0 \<rparr>"
  have flat: "flatten_for_scatter_gather [[?a0, ?a1]] [?inp] 2 0 False = Inr [?f]"
    by (simp add: flatten_for_scatter_gather_def newLikeFlat_def fresh_storage_def u64_def
        numel_def)
  note hook = allgather_post_copies [OF flat, of "[PoolStream 0]"]
  from hook have calls: "allgather_post [[?a0, ?a1]] [?f] [PoolStream 0] =
          ([RecordStream 1 (PoolStream 0), TensorCopy ?a0 ?f 0,
            RecordStream 2 (PoolStream 0), TensorCopy ?a1 ?f 1], None)"
    by (simp add: upt_rec is_alias_of_def)
  have i: "0 < length [[?a0, ?a1]]" and j: "1 < length ([[?a0, ?a1]] ! 0)" by simp_all
  from hook [THEN conjunct2, rule_format, OF i j]
  have copy: "TensorCopy ?a1 ?f 1 \<in> set (fst (allgather_post [[?a0, ?a1]] [?f] [PoolStream 0]))"
    by (simp add: is_alias_of_def)
  from flat calls copy show ?thesis by (simp only: simp_thms)
qed

subsection \<open>The watchdog\<close>

lemma abort_extends_refl: "abort_extends s s"
  by (simp add: abort_extends_def)

lemma abort_extends_trans:
  "abort_extends s s' \<Longrightarrow> abort_extends s' s'' \<Longrightarrow> abort_extends s s''"
  by (simp add: abort_extends_def)

lemma abort_extends_ncclCommAbort: "abort_extends s (ncclCommAbort p s)"
  by (simp add: abort_extends_def ncclCommAbort_def)

lemma aborted_ncclCommAbort: "aborted (comms (ncclCommAbort p s) p)"
  by (simp add: ncclCommAbort_def)

lemma abort_extends_aborted:
  "abort_extends s s' \<Longrightarrow> aborted (comms s p) \<Longrightarrow> aborted (comms s' p)"
  by (simp add: abort_extends_def)

lemma checkForNCCLErrors_abort_extends:
  "abort_extends s s' \<Longrightarrow> checkForNCCLErrors g s' = checkForNCCLErrors g s"
  by (induction g) (simp_all add: abort_extends_def checkForNcclError_def)

lemma abort_group:
  "fold (\<lambda>ncclComm (ids, s').
           (List.insert (buildNcclUniqueIdStr (getNcclId ncclComm s')) ids,
            ncclCommAbort ncclComm s')) g (ids0, s) = (ids1, s1) \<Longrightarrow>
   abort_extends s s1 \<and> (\<forall>c \<in> set g. aborted (comms s1 c))"
proof (induction g arbitrary: ids0 s)
  case Nil
  then show ?case by (simp add: abort_extends_refl)
next
  case (Cons c g)
  from Cons.prems have rest:
    "fold (\<lambda>ncclComm (ids, s').
           (List.insert (buildNcclUniqueIdStr (getNcclId ncclComm s')) ids,
            ncclCommAbort ncclComm s')) g
       (List.insert (buildNcclUniqueIdStr (getNcclId c s)) ids0, ncclCommAbort c s) = (ids1, s1)"
    by simp
  from Cons.IH [OF rest] have ext: "abort_extends (ncclCommAbort c s) s1"
    and all: "\<forall>c \<in> set g. aborted (comms s1 c)" by simp_all
  from abort_extends_aborted [OF ext aborted_ncclCommAbort] have "aborted (comms s1 c)" .
  moreover from abort_extends_trans [OF abort_extends_ncclCommAbort ext]
  have "abort_extends s s1" .
  ultimately show ?case using all by simp
qed

lemma watchdog_scan_group_extends:
  assumes "watchdog_scan_group entry (ab, al, s) = (ab', al', s')"
  shows "abort_extends s s'"
    and "m_blockingWait s \<Longrightarrow> checkForNCCLErrors (snd entry) s \<noteq> None \<Longrightarrow>
           \<forall>c \<in> set (snd entry). aborted (comms s' c)"
    and "\<not> m_blockingWait s \<Longrightarrow> s' = s"
proof -
  show "abort_extends s s'"
    using assms abort_group [of "snd entry" ab s]
    by (auto simp add: watchdog_scan_group_def Let_def abort_extends_refl
        split: if_splits prod.splits)
  show "\<forall>c \<in> set (snd entry). aborted (comms s' c)"
    if "m_blockingWait s" "checkForNCCLErrors (snd entry) s \<noteq> None"
    using assms that abort_group [of "snd entry" ab s]
    by (auto simp add: watchdog_scan_group_def Let_def split: if_splits prod.splits)
  show "s' = s" if "\<not> m_blockingWait s"
    using assms that
    by (auto simp add: watchdog_scan_group_def Let_def split: if_splits prod.splits)
qed

lemma watchdog_scan_fold:
  assumes "fold watchdog_scan_group entries (ab, al, s) = (ab', al', s')"
  shows "abort_extends s s' \<and>
         (m_blockingWait s \<longrightarrow>
            (\<forall>entry \<in> set entries. checkForNCCLErrors (snd entry) s \<noteq> None \<longrightarrow>
               (\<forall>c \<in> set (snd entry). aborted (comms s' c)))) \<and>
         (\<not> m_blockingWait s \<longrightarrow> s' = s)"
  using assms
proof (induction entries arbitrary: ab al s)
  case Nil
  then show ?case by (simp add: abort_extends_refl)
next
  case (Cons entry entries)
  obtain ab1 al1 s1 where step: "watchdog_scan_group entry (ab, al, s) = (ab1, al1, s1)"
    by (cases "watchdog_scan_group entry (ab, al, s)") auto
  with Cons.prems have rest: "fold watchdog_scan_group entries (ab1, al1, s1) = (ab', al', s')"
    by simp
  note g = watchdog_scan_group_extends [OF step]
  note ih = Cons.IH [OF rest]
  from ih have ext1: "abort_extends s1 s'" by simp
  from abort_extends_trans [OF g(1) ext1] have ext: "abort_extends s s'" .
  from g(1) have bw: "m_blockingWait s1 = m_blockingWait s" by (simp add: abort_extends_def)
  have "\<forall>c \<in> set (snd e). aborted (comms s' c)"
    if b: "m_blockingWait s" and e: "e \<in> set (entry # entries)"
      and err: "checkForNCCLErrors (snd e) s \<noteq> None" for e
  proof (cases "e = entry")
    case True
    with g(2) [OF b] err have "\<forall>c \<in> set (snd e). aborted (comms s1 c)" by simp
    with ext1 show ?thesis by (auto dest: abort_extends_aborted)
  next
    case False
    with e have "e \<in> set entries" by simp
    moreover from err checkForNCCLErrors_abort_extends [OF g(1)]
    have "checkForNCCLErrors (snd e) s1 \<noteq> None" by simp
    ultimately show ?thesis using ih b bw by blast
  qed
  moreover have "s' = s" if "\<not> m_blockingWait s"
    using that g(3) ih bw by auto
  ultimately show ?case using ext by blast
qed

lemma abort_extends_fold_abort: "abort_extends s (fold ncclCommAbort g s)"
proof (induction g arbitrary: s)
  case Nil
  show ?case by (simp add: abort_extends_refl)
next
  case (Cons c g)
  from abort_extends_trans [OF abort_extends_ncclCommAbort Cons [of "ncclCommAbort c s"]]
  show ?case by simp
qed

lemma abort_extends_watchdog_publish: "abort_extends s (watchdog_publish ids s)"
proof (induction ids arbitrary: s)
  case Nil
  show ?case by (simp add: watchdog_publish_def abort_extends_refl)
next
  case (Cons a ids)
  let ?s1 = "store_set (getNcclAbortedCommStoreKey a) []
               (s\<lparr> m_abortedComms := insert a (m_abortedComms s) \<rparr>)"
  have "abort_extends s ?s1" by (simp add: abort_extends_def store_set_def)
  from abort_extends_trans [OF this Cons [of ?s1]]
  show ?case by (simp add: watchdog_publish_def)
qed

lemma abort_extends_watchdog_check_store: "abort_extends s (watchdog_check_store ids s)"
proof (induction ids arbitrary: s)
  case Nil
  show ?case by (simp add: watchdog_check_store_def abort_extends_refl)
next
  case (Cons a ids)
  define s1 where "s1 =
    (if a \<in> m_abortedComms s then s
     else (case store s (getNcclAbortedCommStoreKey a) of
             None \<Rightarrow> s
           | Some x \<Rightarrow>
               (case map_of (m_ncclIdToCommMap s) a of
                  None \<Rightarrow> s
                | Some ncclComms \<Rightarrow>
                    (fold ncclCommAbort ncclComms s)
                      \<lparr> m_abortedComms := insert a (m_abortedComms s) \<rparr>)))"
  have upd: "abort_extends s (t\<lparr> m_abortedComms := A \<rparr>)" if "abort_extends s t" for t A
    using that by (simp add: abort_extends_def)
  have "abort_extends s s1"
    unfolding s1_def
    by (auto simp add: abort_extends_refl abort_extends_fold_abort upd split: option.splits)
  from abort_extends_trans [OF this Cons [of s1]]
  show ?case by (simp add: watchdog_check_store_def s1_def)
qed

text \<open>
  Claim C2. One round of the watchdog. With blocking wait disabled it leaves the state as
  it is: no communicator is aborted, nothing is set in the store, no id is added to the
  locally aborted set. With blocking wait enabled every communicator of every cached group
  that reports an asynchronous error is aborted at the end of the round, and the
  communicator cache still has all its entries.
\<close>

theorem watchdog_aborts_only_when_blocking:
  "(\<not> m_blockingWait s \<longrightarrow> watchdog_iteration s = s)
   \<and> (m_blockingWait s \<longrightarrow>
        (\<forall>entry \<in> set (m_devNCCLCommMap s).
            checkForNCCLErrors (snd entry) s \<noteq> None \<longrightarrow>
              (\<forall>c \<in> set (snd entry). aborted (comms (watchdog_iteration s) c)))
        \<and> m_devNCCLCommMap (watchdog_iteration s) = m_devNCCLCommMap s)"
proof -
  obtain ab al s1 where scan: "watchdog_scan s = (ab, al, s1)"
    by (cases "watchdog_scan s") auto
  then have f: "fold watchdog_scan_group (m_devNCCLCommMap s) ([], [], s) = (ab, al, s1)"
    by (simp add: watchdog_scan_def)
  note sc = watchdog_scan_fold [OF f]
  from sc have ext1: "abort_extends s s1" by simp
  then have bw: "m_blockingWait s1 = m_blockingWait s" by (simp add: abort_extends_def)
  have nb: "watchdog_iteration s = s" if "\<not> m_blockingWait s"
    using that sc scan by (simp add: watchdog_iteration_def)
  have b: "(\<forall>entry \<in> set (m_devNCCLCommMap s).
            checkForNCCLErrors (snd entry) s \<noteq> None \<longrightarrow>
              (\<forall>c \<in> set (snd entry). aborted (comms (watchdog_iteration s) c)))
        \<and> m_devNCCLCommMap (watchdog_iteration s) = m_devNCCLCommMap s"
    if bl: "m_blockingWait s"
  proof -
    from bl bw scan have it: "watchdog_iteration s =
        watchdog_check_store al (watchdog_publish ab s1)"
      by (simp add: watchdog_iteration_def)
    have ext2: "abort_extends s1 (watchdog_iteration s)"
      unfolding it
      by (rule abort_extends_trans [OF abort_extends_watchdog_publish
            abort_extends_watchdog_check_store])
    from abort_extends_trans [OF ext1 ext2]
    have "m_devNCCLCommMap (watchdog_iteration s) = m_devNCCLCommMap s"
      by (simp add: abort_extends_def)
    moreover have "\<forall>c \<in> set (snd entry). aborted (comms (watchdog_iteration s) c)"
      if "entry \<in> set (m_devNCCLCommMap s)" "checkForNCCLErrors (snd entry) s \<noteq> None"
      for entry
      using sc bl that ext2 by (auto dest: abort_extends_aborted)
    ultimately show ?thesis by blast
  qed
  from nb b show ?thesis by blast
qed

theorem watchdog_aborts_only_when_blocking_witness:
  "m_blockingWait (example_world\<lparr> m_blockingWait := True, m_devNCCLCommMap := [(''0'', [0])],
        comms := (comms example_world)(0 := \<lparr> ncclId = replicate 128 171, numRanks = 2,
          commRank = 0, aborted = False, ncclAsyncErr = ncclSystemError \<rparr>) \<rparr>)
   \<and> checkForNCCLErrors [0]
        (example_world\<lparr> m_blockingWait := True, m_devNCCLCommMap := [(''0'', [0])],
          comms := (comms example_world)(0 := \<lparr> ncclId = replicate 128 171, numRanks = 2,
            commRank = 0, aborted = False, ncclAsyncErr = ncclSystemError \<rparr>) \<rparr>) \<noteq> None
   \<and> aborted (comms (watchdog_iteration
        (example_world\<lparr> m_blockingWait := True, m_devNCCLCommMap := [(''0'', [0])],
          comms := (comms example_world)(0 := \<lparr> ncclId = replicate 128 171, numRanks = 2,
            commRank = 0, aborted = False, ncclAsyncErr = ncclSystemError \<rparr>) \<rparr>)) 0)
   \<and> watchdog_iteration (example_world\<lparr> m_devNCCLCommMap := [(''0'', [0])],
          comms := (comms example_world)(0 := \<lparr> ncclId = replicate 128 171, numRanks = 2,
            commRank = 0, aborted = False, ncclAsyncErr = ncclSystemError \<rparr>) \<rparr>)
       = example_world\<lparr> m_devNCCLCommMap := [(''0'', [0])],
          comms := (comms example_world)(0 := \<lparr> ncclId = replicate 128 171, numRanks = 2,
            commRank = 0, aborted = False, ncclAsyncErr = ncclSystemError \<rparr>) \<rparr>"
proof -
  let ?c = "(comms example_world)(0 := \<lparr> ncclId = replicate 128 171, numRanks = 2,
          commRank = 0, aborted = False, ncclAsyncErr = ncclSystemError \<rparr>)"
  let ?b = "example_world\<lparr> m_blockingWait := True, m_devNCCLCommMap := [(''0'', [0])],
        comms := ?c \<rparr>"
  let ?n = "example_world\<lparr> m_devNCCLCommMap := [(''0'', [0])], comms := ?c \<rparr>"
  have bw: "m_blockingWait ?b" by simp
  have err: "checkForNCCLErrors [0] ?b \<noteq> None" by (simp add: checkForNcclError_def)
  have nbw: "\<not> m_blockingWait ?n" by (simp add: example_world_def)
  from watchdog_aborts_only_when_blocking [of ?b] bw err
  have "aborted (comms (watchdog_iteration ?b) 0)" by simp
  moreover from watchdog_aborts_only_when_blocking [of ?n] nbw
  have "watchdog_iteration ?n = ?n" by blast
  ultimately show ?thesis using bw err by simp
qed

subsection \<open>Creating communicators\<close>

lemma to_int_u64_id: "0 \<le> x \<Longrightarrow> x < 2 ^ 31 \<Longrightarrow> to_int (u64 x) = x"
  by (simp add: to_int_def u64_def)

lemma digit_value_hex_digit: "d < 10 \<Longrightarrow> digit_value (hex_digit d) = int d"
proof -
  assume "d < 10"
  then have "d \<in> {0, 1, 2, 3, 4, 5, 6, 7, 8, 9}" by auto
  then show ?thesis
    by (auto simp add: digit_value_def hex_digit_def)
qed

lemma digits_value_snoc: "digits_value (ds @ [c]) = 10 * digits_value ds + digit_value c"
  by (simp add: digits_value_def)

lemma digits_value_to_string_nat: "digits_value (to_string_nat n) = int n"
proof (induction n rule: to_string_nat.induct)
  case (1 n)
  show ?case
  proof (cases "n < 10")
    case True
    then show ?thesis
      by (simp add: to_string_nat.simps [of n] digits_value_def digit_value_hex_digit)
  next
    case False
    with 1 have ih: "digits_value (to_string_nat (n div 10)) = int (n div 10)" by simp
    have "n mod 10 < 10" by simp
    from digit_value_hex_digit [OF this] ih False show ?thesis
      by (simp add: to_string_nat.simps [of n] digits_value_snoc zdiv_int zmod_int)
  qed
qed

lemma to_string_nat_inj: "to_string_nat m = to_string_nat n \<Longrightarrow> m = n"
proof -
  assume eq: "to_string_nat m = to_string_nat n"
  have "int m = digits_value (to_string_nat m)" by (simp only: digits_value_to_string_nat)
  also have "\<dots> = digits_value (to_string_nat n)" by (simp only: eq)
  also have "\<dots> = int n" by (simp only: digits_value_to_string_nat)
  finally show "m = n" by (simp only: of_nat_eq_iff)
qed

lemma to_string_nat_0: "to_string_nat 0 = ''0''"
  by (simp add: to_string_nat.simps [of 0] hex_digit_def)

lemma create_comm_fold:
  assumes "fold (create_comm devices ncclID) idx ((cs, sts), s) = ((cs', sts'), s')"
  shows "cs' = cs @ map (\<lambda>k. next_comm s + k) [0..<length idx]
    \<and> next_comm s' = next_comm s + length idx
    \<and> (\<forall>q < next_comm s. comms s' q = comms s q)
    \<and> (\<forall>k < length idx. comms s' (next_comm s + k) =
          \<lparr> ncclId = ncclID,
            numRanks = to_int (u64 (m_size s * int (length devices))),
            commRank = to_int (u64 (m_rank s * int (length devices) + int (idx ! k))),
            aborted = False, ncclAsyncErr = ncclSuccess \<rparr>)
    \<and> store s' = store s \<and> m_rank s' = m_rank s \<and> m_size s' = m_size s
    \<and> m_ncclCommCounter s' = m_ncclCommCounter s
    \<and> m_devNCCLCommMap s' = m_devNCCLCommMap s
    \<and> calls s' = calls s @ concat (map (\<lambda>i.
          [SetDevice (devices ! i),
           NcclCommInitRank (to_int (u64 (m_size s * int (length devices))))
             (to_int (u64 (m_rank s * int (length devices) + int i))) ncclID]) idx)"
  using assms
proof (induction idx arbitrary: cs sts s)
  case Nil
  then show ?case by simp
next
  case (Cons i idx)
  obtain cs1 sts1 s1 where step: "create_comm devices ncclID i ((cs, sts), s) = ((cs1, sts1), s1)"
    by (metis prod.exhaust)
  then have s1: "cs1 = cs @ [next_comm s]" "next_comm s1 = Suc (next_comm s)"
    "comms s1 = (comms s)(next_comm s :=
          \<lparr> ncclId = ncclID,
            numRanks = to_int (u64 (m_size s * int (length devices))),
            commRank = to_int (u64 (m_rank s * int (length devices) + int i)),
            aborted = False, ncclAsyncErr = ncclSuccess \<rparr>)"
    "store s1 = store s" "m_rank s1 = m_rank s" "m_size s1 = m_size s"
    "m_ncclCommCounter s1 = m_ncclCommCounter s" "m_devNCCLCommMap s1 = m_devNCCLCommMap s"
    "calls s1 = calls s @ [SetDevice (devices ! i),
           NcclCommInitRank (to_int (u64 (m_size s * int (length devices))))
             (to_int (u64 (m_rank s * int (length devices) + int i))) ncclID]"
    by (auto simp add: create_comm_def Let_def)
  from Cons.prems step have "fold (create_comm devices ncclID) idx ((cs1, sts1), s1)
      = ((cs', sts'), s')" by simp
  note ih = Cons.IH [OF this]
  have map: "map (\<lambda>k. next_comm s + k) [0..<length (i # idx)]
      = next_comm s # map (\<lambda>k. next_comm s1 + k) [0..<length idx]"
    by (simp add: s1(2) upt_conv_Cons map_Suc_upt [symmetric] del: upt_Suc)
  have nth: "comms s' (next_comm s + k) =
          \<lparr> ncclId = ncclID,
            numRanks = to_int (u64 (m_size s * int (length devices))),
            commRank = to_int (u64 (m_rank s * int (length devices) + int ((i # idx) ! k))),
            aborted = False, ncclAsyncErr = ncclSuccess \<rparr>" if "k < length (i # idx)" for k
  proof (cases k)
    case 0
    from ih have "comms s' (next_comm s) = comms s1 (next_comm s)" by (simp add: s1(2))
    with 0 show ?thesis by (simp add: s1(3))
  next
    case (Suc k')
    with that have "k' < length idx" by simp
    with ih have "comms s' (next_comm s1 + k') =
          \<lparr> ncclId = ncclID,
            numRanks = to_int (u64 (m_size s1 * int (length devices))),
            commRank = to_int (u64 (m_rank s1 * int (length devices) + int (idx ! k'))),
            aborted = False, ncclAsyncErr = ncclSuccess \<rparr>" by blast
    with Suc show ?thesis by (simp add: s1)
  qed
  have old: "comms s' q = comms s q" if "q < next_comm s" for q
  proof -
    from that ih have "comms s' q = comms s1 q" by (simp add: s1(2))
    with that show ?thesis by (simp add: s1(3))
  qed
  from ih nth old show ?case
    by (simp only: map s1) (simp add: s1)
qed

lemma at_key_emplace: "map_of m k = None \<Longrightarrow> at_key (emplace k v m) k = v"
  by (simp add: at_key_def emplace_def map_of_append map_add_def)

lemma rank_times_devices:
  assumes "0 \<le> r" "r < sz" "sz * n < 2 ^ 31" "0 \<le> i" "i < n"
  shows "0 \<le> r * n + i \<and> r * n + i < (2 ^ 31 :: int) \<and> 0 \<le> sz * n"
proof -
  from assms have n: "0 \<le> n" by simp
  from assms(2) have "r + 1 \<le> sz" by simp
  from mult_right_mono [OF this n] have "r * n + n \<le> sz * n" by (simp add: algebra_simps)
  with assms have "r * n + i < 2 ^ 31" by simp
  moreover from assms n have "0 \<le> r * n + i" by simp
  moreover from assms n have "0 \<le> sz * n" by simp
  ultimately show ?thesis by simp
qed

lemma getNCCLComm_after_broadcast:
  assumes key: "devicesKey \<noteq> []" and fresh: "map_of (m_devNCCLCommMap s) devicesKey = None"
    and bc: "broadcastUniqueNCCLID (if m_rank s = 0 then ncclGetUniqueId_out s else [])
               (s\<lparr> m_usedDeviceIdxs := m_usedDeviceIdxs s \<union> set devices \<rparr>) = (Inr ncclID, s2)"
    and s2: "m_devNCCLCommMap s2 = m_devNCCLCommMap s" "m_rank s2 = m_rank s"
      "m_size s2 = m_size s"
    and rank: "0 \<le> m_rank s" "m_rank s < m_size s"
    and fits: "m_size s * int (length devices) < 2 ^ 31"
  shows "\<exists>ncclComms s'. getNCCLComm devicesKey devices s = (Inr ncclComms, s')
     \<and> length ncclComms = length devices
     \<and> (\<forall>i < length devices.
           numRanks (comms s' (ncclComms ! i)) = m_size s * int (length devices) \<and>
           commRank (comms s' (ncclComms ! i)) = m_rank s * int (length devices) + int i \<and>
           ncclId (comms s' (ncclComms ! i)) = ncclID \<and>
           NcclCommInitRank (m_size s * int (length devices))
             (m_rank s * int (length devices) + int i) ncclID \<in> set (calls s'))
     \<and> store s' = store s2 \<and> m_ncclCommCounter s' = m_ncclCommCounter s2
     \<and> map_of (m_devNCCLCommMap s') devicesKey = Some ncclComms"
proof -
  let ?n = "length devices"
  obtain cs sts s3 where f: "fold (create_comm devices ncclID) [0..<?n]
        (([], []), add_calls [NcclGroupStart] s2) = ((cs, sts), s3)"
    by (metis prod.exhaust)
  note cf = create_comm_fold [OF f]
  let ?s0 = "add_calls [NcclGroupStart] s2"
  have base: "m_size ?s0 = m_size s" "m_rank ?s0 = m_rank s"
    "m_devNCCLCommMap ?s0 = m_devNCCLCommMap s" "store ?s0 = store s2"
    "m_ncclCommCounter ?s0 = m_ncclCommCounter s2"
    by (simp_all add: add_calls_def s2)
  from cf have cs: "cs = map (\<lambda>k. next_comm ?s0 + k) [0..<?n]" by simp
  then have len: "length cs = ?n" by simp
  have fresh3: "map_of (m_devNCCLCommMap s3) devicesKey = None"
    using cf base fresh by simp
  define s6 where "s6 = (let s4 = add_calls [NcclGroupEnd] s3;
       s5 = s4\<lparr> m_ncclStreams := emplace devicesKey sts (m_ncclStreams s4),
                m_ncclEvents := emplace devicesKey
                   [next_event s4..<next_event s4 + length devices] (m_ncclEvents s4),
                next_event := next_event s4 + length devices \<rparr>
     in s5\<lparr> m_ncclIdToCommMap := emplace (buildNcclUniqueIdStr ncclID) cs (m_ncclIdToCommMap s5),
             m_devNCCLCommMap := emplace devicesKey cs (m_devNCCLCommMap s5) \<rparr>)"
  have s6: "comms s6 = comms s3" "store s6 = store s3"
    "m_ncclCommCounter s6 = m_ncclCommCounter s3"
    "m_devNCCLCommMap s6 = emplace devicesKey cs (m_devNCCLCommMap s3)"
    "calls s6 = calls s3 @ [NcclGroupEnd]"
    by (simp_all add: s6_def Let_def add_calls_def)
  have res: "getNCCLComm devicesKey devices s = (Inr cs, s6)"
  proof (cases "m_rank s = 0")
    case True
    with key fresh bc f fresh3 show ?thesis
      by (simp add: getNCCLComm_def Let_def s6_def at_key_emplace add_calls_def)
  next
    case False
    with key fresh bc f fresh3 show ?thesis
      by (simp add: getNCCLComm_def Let_def s6_def at_key_emplace add_calls_def)
  qed
  have each: "numRanks (comms s6 (cs ! i)) = m_size s * int ?n \<and>
           commRank (comms s6 (cs ! i)) = m_rank s * int ?n + int i \<and>
           ncclId (comms s6 (cs ! i)) = ncclID \<and>
           NcclCommInitRank (m_size s * int ?n) (m_rank s * int ?n + int i) ncclID
             \<in> set (calls s6)" if i: "i < ?n" for i
  proof -
    from i have ii: "0 \<le> int i" "int i < int ?n" by simp_all
    note r = rank_times_devices [OF rank fits ii]
    from r fits have a: "to_int (u64 (m_size s * int ?n)) = m_size s * int ?n"
      by (intro to_int_u64_id) simp_all
    from r have b: "to_int (u64 (m_rank s * int ?n + int i)) = m_rank s * int ?n + int i"
      by (intro to_int_u64_id) simp_all
    from cf i have "comms s3 (next_comm ?s0 + i) =
          \<lparr> ncclId = ncclID,
            numRanks = to_int (u64 (m_size ?s0 * int ?n)),
            commRank = to_int (u64 (m_rank ?s0 * int ?n + int ([0..<?n] ! i))),
            aborted = False, ncclAsyncErr = ncclSuccess \<rparr>"
      by (metis length_upt diff_zero)
    with i a b have c: "comms s6 (cs ! i) =
          \<lparr> ncclId = ncclID, numRanks = m_size s * int ?n,
            commRank = m_rank s * int ?n + int i,
            aborted = False, ncclAsyncErr = ncclSuccess \<rparr>"
      by (simp add: s6 cs base)
    from cf have "calls s3 = calls ?s0 @ concat (map (\<lambda>i.
          [SetDevice (devices ! i),
           NcclCommInitRank (to_int (u64 (m_size ?s0 * int ?n)))
             (to_int (u64 (m_rank ?s0 * int ?n + int i))) ncclID]) [0..<?n])" by simp
    moreover from i have "i \<in> set [0..<?n]" by simp
    ultimately have "NcclCommInitRank (to_int (u64 (m_size ?s0 * int ?n)))
             (to_int (u64 (m_rank ?s0 * int ?n + int i))) ncclID \<in> set (calls s3)"
      by (simp del: set_upt) blast
    with a b have "NcclCommInitRank (m_size s * int ?n) (m_rank s * int ?n + int i) ncclID
         \<in> set (calls s6)" by (simp add: s6 base)
    with c show ?thesis by simp
  qed
  have "store s6 = store s2" "m_ncclCommCounter s6 = m_ncclCommCounter s2"
    using cf base by (simp_all add: s6)
  moreover have "map_of (m_devNCCLCommMap s6) devicesKey = Some cs"
    using fresh3 by (simp add: s6 emplace_def map_of_append map_add_def)
  ultimately show ?thesis using res len each by blast
qed

text \<open>
  Claim C9. The first creation for a device list of length \<open>n\<close> (no cache entry for the
  key), for a rank and a size that fit into an \<^verbatim>\<open>int\<close>. On rank 0 the id is set in
  the store under the decimal string of the counter, and communicator \<open>i\<close> is created
  with size \<open>size * n\<close> and rank \<open>rank * n + i\<close> on that id. On another rank the
  value under that key is fetched: with the width of a UniqueId it is the id of the
  communicators, created with the same numbers; with another width the assertion fails and
  no communicator is created. The counter grows by one in each case, and the key is its
  decimal representation.
\<close>

theorem getNCCLComm_first_creation:
  assumes key: "devicesKey \<noteq> []" and fresh: "map_of (m_devNCCLCommMap s) devicesKey = None"
    and rank: "0 \<le> m_rank s" "m_rank s < m_size s"
    and fits: "m_size s * int (length devices) < 2 ^ 31"
    and idlen: "length (ncclGetUniqueId_out s) = NCCL_UNIQUE_ID_BYTES"
  shows "(m_rank s = 0 \<longrightarrow>
           (\<exists>ncclComms s'. getNCCLComm devicesKey devices s = (Inr ncclComms, s')
              \<and> length ncclComms = length devices
              \<and> (\<forall>i < length devices.
                    numRanks (comms s' (ncclComms ! i)) = m_size s * int (length devices) \<and>
                    commRank (comms s' (ncclComms ! i)) = m_rank s * int (length devices) + int i \<and>
                    ncclId (comms s' (ncclComms ! i)) = ncclGetUniqueId_out s \<and>
                    NcclCommInitRank (m_size s * int (length devices))
                      (m_rank s * int (length devices) + int i) (ncclGetUniqueId_out s)
                      \<in> set (calls s'))
              \<and> store s' = (store s)(to_string_nat (m_ncclCommCounter s) \<mapsto> ncclGetUniqueId_out s)
              \<and> m_ncclCommCounter s' = m_ncclCommCounter s + 1))
    \<and> (m_rank s \<noteq> 0 \<longrightarrow>
          (\<forall>vec. store s (to_string_nat (m_ncclCommCounter s)) = Some vec \<longrightarrow>
             (if length vec = NCCL_UNIQUE_ID_BYTES then
                (\<exists>ncclComms s'. getNCCLComm devicesKey devices s = (Inr ncclComms, s')
                   \<and> length ncclComms = length devices
                   \<and> (\<forall>i < length devices.
                         numRanks (comms s' (ncclComms ! i)) = m_size s * int (length devices) \<and>
                         commRank (comms s' (ncclComms ! i))
                           = m_rank s * int (length devices) + int i \<and>
                         ncclId (comms s' (ncclComms ! i)) = vec \<and>
                         NcclCommInitRank (m_size s * int (length devices))
                           (m_rank s * int (length devices) + int i) vec \<in> set (calls s'))
                   \<and> store s' = store s
                   \<and> m_ncclCommCounter s' = m_ncclCommCounter s + 1)
              else
                (\<exists>s'. getNCCLComm devicesKey devices s
                         = (Inl (TorchCheckFailed ''vec.size() == NCCL_UNIQUE_ID_BYTES''), s')
                   \<and> comms s' = comms s \<and> calls s' = calls s \<and> store s' = store s
                   \<and> m_devNCCLCommMap s' = m_devNCCLCommMap s
                   \<and> m_ncclCommCounter s' = m_ncclCommCounter s + 1))))
    \<and> digits_value (to_string_nat (m_ncclCommCounter s)) = int (m_ncclCommCounter s)"
proof -
  let ?s1 = "s\<lparr> m_usedDeviceIdxs := m_usedDeviceIdxs s \<union> set devices \<rparr>"
  let ?k = "to_string_nat (m_ncclCommCounter s)"
  have zero: ?thesis if r0: "m_rank s = 0"
  proof -
    let ?s2 = "store_set ?k (ncclGetUniqueId_out s)
                 (?s1\<lparr> m_ncclCommCounter := m_ncclCommCounter s + 1 \<rparr>)"
    have bc: "broadcastUniqueNCCLID (if m_rank s = 0 then ncclGetUniqueId_out s else []) ?s1
                = (Inr (ncclGetUniqueId_out s), ?s2)"
      using r0 idlen by (simp add: broadcastUniqueNCCLID_def Let_def)
    have s2: "m_devNCCLCommMap ?s2 = m_devNCCLCommMap s" "m_rank ?s2 = m_rank s"
      "m_size ?s2 = m_size s"
      by (simp_all add: store_set_def)
    from getNCCLComm_after_broadcast [OF key fresh bc s2 rank fits]
    obtain ncclComms s' where
      "getNCCLComm devicesKey devices s = (Inr ncclComms, s')"
      "length ncclComms = length devices"
      "\<forall>i < length devices.
           numRanks (comms s' (ncclComms ! i)) = m_size s * int (length devices) \<and>
           commRank (comms s' (ncclComms ! i)) = m_rank s * int (length devices) + int i \<and>
           ncclId (comms s' (ncclComms ! i)) = ncclGetUniqueId_out s \<and>
           NcclCommInitRank (m_size s * int (length devices))
             (m_rank s * int (length devices) + int i) (ncclGetUniqueId_out s) \<in> set (calls s')"
      "store s' = store ?s2" "m_ncclCommCounter s' = m_ncclCommCounter ?s2"
      by blast
    moreover have "store ?s2 = (store s)(?k \<mapsto> ncclGetUniqueId_out s)"
      "m_ncclCommCounter ?s2 = m_ncclCommCounter s + 1"
      by (simp_all add: store_set_def)
    ultimately show ?thesis using r0 digits_value_to_string_nat [of "m_ncclCommCounter s"]
      by (simp only:) blast
  qed
  have nonzero: ?thesis if r: "m_rank s \<noteq> 0"
  proof -
    let ?s2 = "?s1\<lparr> m_ncclCommCounter := m_ncclCommCounter s + 1 \<rparr>"
    have good: "\<exists>ncclComms s'. getNCCLComm devicesKey devices s = (Inr ncclComms, s')
                   \<and> length ncclComms = length devices
                   \<and> (\<forall>i < length devices.
                         numRanks (comms s' (ncclComms ! i)) = m_size s * int (length devices) \<and>
                         commRank (comms s' (ncclComms ! i))
                           = m_rank s * int (length devices) + int i \<and>
                         ncclId (comms s' (ncclComms ! i)) = vec \<and>
                         NcclCommInitRank (m_size s * int (length devices))
                           (m_rank s * int (length devices) + int i) vec \<in> set (calls s'))
                   \<and> store s' = store s
                   \<and> m_ncclCommCounter s' = m_ncclCommCounter s + 1"
      if v: "store s ?k = Some vec" and l: "length vec = NCCL_UNIQUE_ID_BYTES" for vec
    proof -
      have bc: "broadcastUniqueNCCLID (if m_rank s = 0 then ncclGetUniqueId_out s else []) ?s1
                = (Inr vec, ?s2)"
        using r v l by (simp add: broadcastUniqueNCCLID_def Let_def)
      have s2: "m_devNCCLCommMap ?s2 = m_devNCCLCommMap s" "m_rank ?s2 = m_rank s"
        "m_size ?s2 = m_size s"
        by simp_all
      from getNCCLComm_after_broadcast [OF key fresh bc s2 rank fits]
      show ?thesis by simp blast
    qed
    have bad: "\<exists>s'. getNCCLComm devicesKey devices s
                         = (Inl (TorchCheckFailed ''vec.size() == NCCL_UNIQUE_ID_BYTES''), s')
                   \<and> comms s' = comms s \<and> calls s' = calls s \<and> store s' = store s
                   \<and> m_devNCCLCommMap s' = m_devNCCLCommMap s
                   \<and> m_ncclCommCounter s' = m_ncclCommCounter s + 1"
      if v: "store s ?k = Some vec" and l: "length vec \<noteq> NCCL_UNIQUE_ID_BYTES" for vec
      using key fresh r v l
      by (simp add: getNCCLComm_def broadcastUniqueNCCLID_def Let_def)
    from good bad r digits_value_to_string_nat [of "m_ncclCommCounter s"]
    show ?thesis by (simp only:) presburger
  qed
  from zero nonzero show ?thesis by blast
qed

theorem getNCCLComm_first_creation_witness:
  "''0'' \<noteq> []
   \<and> map_of (m_devNCCLCommMap (example_world\<lparr> m_size := 2 \<rparr>)) ''0'' = None
   \<and> 0 \<le> m_rank (example_world\<lparr> m_size := 2 \<rparr>)
   \<and> m_rank (example_world\<lparr> m_size := 2 \<rparr>) < m_size (example_world\<lparr> m_size := 2 \<rparr>)
   \<and> m_size (example_world\<lparr> m_size := 2 \<rparr>) * int (length [0 :: int]) < 2 ^ 31
   \<and> length (ncclGetUniqueId_out (example_world\<lparr> m_size := 2 \<rparr>)) = NCCL_UNIQUE_ID_BYTES
   \<and> (\<exists>ncclComms s'.
         getNCCLComm ''0'' [0] (example_world\<lparr> m_size := 2 \<rparr>) = (Inr ncclComms, s')
         \<and> length ncclComms = 1
         \<and> numRanks (comms s' (ncclComms ! 0)) = 2
         \<and> commRank (comms s' (ncclComms ! 0)) = 0
         \<and> store s' ''0'' = Some (replicate 128 171)
         \<and> m_ncclCommCounter s' = 1)"
proof -
  let ?s = "example_world\<lparr> m_size := 2 \<rparr>"
  have h: "''0'' \<noteq> []" "map_of (m_devNCCLCommMap ?s) ''0'' = None" "0 \<le> m_rank ?s"
    "m_rank ?s < m_size ?s" "m_size ?s * int (length [0 :: int]) < 2 ^ 31"
    "length (ncclGetUniqueId_out ?s) = NCCL_UNIQUE_ID_BYTES"
    by (simp_all add: example_world_def NCCL_UNIQUE_ID_BYTES_def)
  have r0: "m_rank ?s = 0" "m_ncclCommCounter ?s = 0" "store ?s = Map.empty"
    "ncclGetUniqueId_out ?s = replicate 128 171" "m_size ?s = 2"
    by (simp_all add: example_world_def)
  from getNCCLComm_first_creation [OF h] r0(1)
  obtain ncclComms s' where
    g: "getNCCLComm ''0'' [0] ?s = (Inr ncclComms, s')" "length ncclComms = length [0 :: int]"
    and each: "\<forall>i < length [0 :: int].
        numRanks (comms s' (ncclComms ! i)) = m_size ?s * int (length [0 :: int]) \<and>
        commRank (comms s' (ncclComms ! i)) = m_rank ?s * int (length [0 :: int]) + int i"
    and st: "store s' = (store ?s)(to_string_nat (m_ncclCommCounter ?s) \<mapsto> ncclGetUniqueId_out ?s)"
    and cnt: "m_ncclCommCounter s' = m_ncclCommCounter ?s + 1"
    by blast
  from each r0 have "numRanks (comms s' (ncclComms ! 0)) = 2"
    "commRank (comms s' (ncclComms ! 0)) = 0" by simp_all
  moreover from st r0 have "store s' ''0'' = Some (replicate 128 171)"
    by (simp add: to_string_nat_0)
  moreover from cnt r0 have "m_ncclCommCounter s' = 1" by simp
  ultimately show ?thesis using g h by simp
qed

subsection \<open>Waiting past the timeout\<close>

lemma getKeyFromDevices_0: "getKeyFromDevices [0] = ''0''"
  by (simp add: to_string_def to_string_nat_0)

lemma ctor_example:
  "ProcessGroupNCCL (Some ''1'') 0 2 500 example_world
     = Inr (example_world\<lparr> m_size := 2, m_opTimeout := 500, m_blockingWait := True \<rparr>)"
proof -
  have "stoi ''1'' = Inr 1"
    by (simp add: stoi_def isspace_def isdigit_def digits_value_def digit_value_def Let_def)
  then show ?thesis
    by (simp add: ProcessGroupNCCL_def blockingWait_from_env_stoi example_world_def)
qed

lemma alltoall_example:
  "\<exists>work s1. alltoall [example_tensor 0 3 0 [4], example_tensor 0 4 0 [4]]
            [example_tensor 0 1 0 [4], example_tensor 0 2 0 [4]]
            (example_world\<lparr> m_size := 2, m_opTimeout := 500, m_blockingWait := True \<rparr>)
          = (Inr work, s1)
     \<and> w_store work = nullptr \<and> w_ncclComms work = [0] \<and> w_blockingWait work
     \<and> w_opTimeout work = 500 \<and> w_workStartTime work = 0 \<and> w_exception work = None
     \<and> w_devices work = [0] \<and> w_cudaEvents work = [1] \<and> w_barrierTensors work = []
     \<and> store s1 = [''0'' \<mapsto> replicate 128 171]
     \<and> comms s1 0 = \<lparr> ncclId = replicate 128 171, numRanks = 2, commRank = 0,
                        aborted = False, ncclAsyncErr = ncclSuccess \<rparr>
     \<and> event_status s1 = (\<lambda>ev. cudaErrorNotReady)"
  by (simp add: alltoall_def u64_def check_gpu_tensors_multi_def example_tensor_def
      example_world_def getNcclDataType_def batchedp2p_def getDeviceList_def
      getKeyFromDevices_0 getNCCLComm_def broadcastUniqueNCCLID_def to_string_nat_0
      NCCL_UNIQUE_ID_BYTES_def store_set_def add_calls_def create_comm_def Let_def
      to_int_def emplace_def at_key_def initWork_def syncStreams_def numel_def data_ptr_def
      del: getKeyFromDevices.simps)

lemma batchedp2p_work_store:
  "batchedp2p send_ptrs send_lengths recv_ptrs recv_lengths datatype inputs outputs s
     = (Inr work, s') \<Longrightarrow> w_store work = nullptr"
  by (auto simp add: batchedp2p_def initWork_def Let_def split: prod.splits sum.splits if_splits)

lemma alltoall_work_store:
  "alltoall outputTensors inputTensors s = (Inr work, s') \<Longrightarrow> w_store work = nullptr"
  by (auto simp add: alltoall_def Let_def split: if_splits sum.splits
      dest: batchedp2p_work_store)

lemma collective_work_store:
  "collective inputs outputs fn pre post s = (Inr work, s') \<Longrightarrow> inputs \<noteq> [] \<Longrightarrow>
     w_store work = store_ptr"
  by (auto simp add: collective_def initWork_def Let_def
      split: prod.splits sum.splits option.splits if_splits)

lemma abort_and_publish_aborted_kept:
  "aborted (comms s c) \<Longrightarrow> aborted (comms (snd (abort_and_publish sp cs s)) c)"
  by (induction cs arbitrary: s)
     (auto simp add: Let_def ncclCommAbort_def store_set_def split: Store_ptr.splits)

lemma abort_and_publish_store_ptr:
  "fst (abort_and_publish store_ptr cs s) = None \<and>
   (\<forall>c \<in> set cs. aborted (comms (snd (abort_and_publish store_ptr cs s)) c))"
proof (induction cs arbitrary: s)
  case Nil
  show ?case by simp
next
  case (Cons a cs)
  let ?s1 = "store_set (getNcclAbortedCommStoreKey (buildNcclUniqueIdStr (getNcclId a s))) []
               (ncclCommAbort a s)"
  have "aborted (comms ?s1 a)" by (simp add: store_set_def ncclCommAbort_def)
  from abort_and_publish_aborted_kept [OF this, of store_ptr cs] Cons [of ?s1]
  show ?case by (simp add: Let_def)
qed

lemma synchronize_iteration_timeout:
  assumes "isCompleted w s = (Inr False, w1)"
    and "clock s - w_workStartTime w > w_opTimeout w"
    and "w_store w = store_ptr"
  shows "\<exists>s'. synchronize_iteration w s = (Throws (RuntimeError ''Operation timed out!''), w1, s')
           \<and> (\<forall>c \<in> set (w_ncclComms w).
                 aborted (comms s' c) \<and>
                 store s' (getNcclAbortedCommStoreKey (buildNcclUniqueIdStr (getNcclId c s)))
                   = Some [])"
proof -
  from assms(1) have w1: "w_workStartTime w1 = w_workStartTime w" "w_opTimeout w1 = w_opTimeout w"
    "w_store w1 = w_store w" "w_ncclComms w1 = w_ncclComms w"
    by (auto simp add: isCompleted_def checkAndSetException_def Let_def split: if_splits)
  obtain s' where ap: "abort_and_publish store_ptr (w_ncclComms w) s = (None, s')"
    using abort_and_publish_store_ptr [of "w_ncclComms w" s]
    by (cases "abort_and_publish store_ptr (w_ncclComms w) s") auto
  with assms w1 have "synchronize_iteration w s
      = (Throws (RuntimeError ''Operation timed out!''), w1, s')"
    by (simp add: synchronize_iteration_def)
  moreover have "aborted (comms s' c)" if "c \<in> set (w_ncclComms w)" for c
    using abort_and_publish_store_ptr [of "w_ncclComms w" s] ap that by simp
  moreover have "store s' (getNcclAbortedCommStoreKey (buildNcclUniqueIdStr (getNcclId c s)))
                   = Some []" if "c \<in> set (w_ncclComms w)" for c
    using abort_and_publish_marker [OF that, of s] ap by simp
  ultimately show ?thesis by blast
qed

lemma synchronize_iteration_timeout_null:
  assumes "isCompleted w s = (Inr False, w1)"
    and "clock s - w_workStartTime w > w_opTimeout w"
    and "w_store w = nullptr" and "w_ncclComms w = c # cs"
  shows "synchronize_iteration w s =
           (Throws (UndefinedBehaviour ''store_->set through a null pointer''), w1,
            ncclCommAbort c s)"
proof -
  from assms(1) have w1: "w_workStartTime w1 = w_workStartTime w" "w_opTimeout w1 = w_opTimeout w"
    "w_store w1 = w_store w" "w_ncclComms w1 = w_ncclComms w"
    by (auto simp add: isCompleted_def checkAndSetException_def Let_def split: if_splits)
  with assms show ?thesis
    by (simp add: synchronize_iteration_def Let_def)
qed

text \<open>
  A work of \<open>alltoall\<close> that has timed out: the first communicator is aborted, then the
  wait leaves defined behaviour, and the store is as it was.
\<close>

lemma alltoall_work_timeout:
  assumes "alltoall outputTensors inputTensors s0 = (Inr work, s1)"
    and "isCompleted work s = (Inr False, w1)"
    and "clock s - w_workStartTime work > w_opTimeout work"
    and "w_ncclComms work = c # cs"
  shows "synchronize_iteration work s =
           (Throws (UndefinedBehaviour ''store_->set through a null pointer''), w1,
            ncclCommAbort c s)"
    and "store (ncclCommAbort c s) = store s"
  using synchronize_iteration_timeout_null [OF assms(2,3) alltoall_work_store [OF assms(1)] assms(4)]
  by simp_all

text \<open>
  A work of \<open>collective\<close> that has timed out: every communicator is aborted, every marker
  is in the store, and the wait fails with the timeout error.
\<close>

lemma collective_work_timeout:
  assumes "collective inputs outputs fn pre post s0 = (Inr work, s1)" and "inputs \<noteq> []"
    and "isCompleted work s = (Inr False, w1)"
    and "clock s - w_workStartTime work > w_opTimeout work"
  shows "\<exists>s'. synchronize_iteration work s
                 = (Throws (RuntimeError ''Operation timed out!''), w1, s')
           \<and> (\<forall>c \<in> set (w_ncclComms work).
                 aborted (comms s' c) \<and>
                 store s' (getNcclAbortedCommStoreKey (buildNcclUniqueIdStr (getNcclId c s)))
                   = Some [])"
  using synchronize_iteration_timeout [OF assms(3,4) collective_work_store [OF assms(1,2)]] .

lemma allreduce_work_timeout:
  assumes "allreduce tensors reduceOp s0 = (Inr work, s1)"
    and "isCompleted work s = (Inr False, w1)"
    and "clock s - w_workStartTime work > w_opTimeout work"
  shows "\<exists>s'. synchronize_iteration work s
                 = (Throws (RuntimeError ''Operation timed out!''), w1, s')
           \<and> (\<forall>c \<in> set (w_ncclComms work).
                 aborted (comms s' c) \<and>
                 store s' (getNcclAbortedCommStoreKey (buildNcclUniqueIdStr (getNcclId c s)))
                   = Some [])"
proof -
  from assms(1) have ok: "check_gpu_tensors (numGPUs s0) tensors = Inr ()"
    and c: "collective tensors tensors (allreduce_fn reduceOp)
              (\<lambda>streams. ([], None)) (\<lambda>streams. ([], None)) s0 = (Inr work, s1)"
    by (auto simp add: allreduce_def split: sum.splits)
  from ok have "tensors \<noteq> []"
    by (auto simp add: check_gpu_tensors_def check_gpu_tensors_multi_def)
  from collective_work_timeout [OF c this assms(2,3)] show ?thesis .
qed

text \<open>
  Claim C1. The claim covers the work returned by \<open>alltoall\<close>. \<open>batchedp2p\<close> does not
  copy the store pointer into the work, as \<open>collective\<close> does. On a group of size 2
  constructed with \<open>NCCL_BLOCKING_WAIT=1\<close> and a timeout of 500 ms, the work of an
  \<open>alltoall\<close> that no peer joins is waited for at 501 ms: \<open>synchronize\<close> aborts the
  communicator and then calls \<open>set\<close> through the null pointer. It does not fail with
  the timeout error, and no abort marker is in the store. \<open>allreduce_work_timeout\<close>
  above shows that a work of \<open>collective\<close> behaves as the claim says.
\<close>

theorem alltoall_work_timeout_publishes_nothing:
  "(case ProcessGroupNCCL (Some ''1'') 0 2 500 example_world of
      Inl e \<Rightarrow> False
    | Inr s0 \<Rightarrow>
        (case alltoall [example_tensor 0 3 0 [4], example_tensor 0 4 0 [4]]
                [example_tensor 0 1 0 [4], example_tensor 0 2 0 [4]] s0 of
           (Inl e, s1) \<Rightarrow> False
         | (Inr work, s1) \<Rightarrow>
             (case synchronize [] work (s1\<lparr> clock := 501 \<rparr>) of
                (r, work', s2) \<Rightarrow>
                  w_blockingWait work \<and> w_opTimeout work = 500 \<and> w_workStartTime work = 0
                  \<and> w_ncclComms work = [0]
                  \<and> r = Some (Inl (UndefinedBehaviour ''store_->set through a null pointer''))
                  \<and> aborted (comms s2 0)
                  \<and> store s2 (getNcclAbortedCommStoreKey
                                (buildNcclUniqueIdStr (getNcclId 0 s1))) = None)))"
proof -
  let ?s0 = "example_world\<lparr> m_size := 2, m_opTimeout := 500, m_blockingWait := True \<rparr>"
  from alltoall_example obtain work s1 where
    a2a: "alltoall [example_tensor 0 3 0 [4], example_tensor 0 4 0 [4]]
            [example_tensor 0 1 0 [4], example_tensor 0 2 0 [4]] ?s0 = (Inr work, s1)"
    and w: "w_store work = nullptr" "w_ncclComms work = [0]" "w_blockingWait work"
      "w_opTimeout work = 500" "w_workStartTime work = 0" "w_exception work = None"
      "w_devices work = [0]" "w_cudaEvents work = [1]" "w_barrierTensors work = []"
    and s1: "store s1 = [''0'' \<mapsto> replicate 128 171]"
      "comms s1 0 = \<lparr> ncclId = replicate 128 171, numRanks = 2, commRank = 0,
                        aborted = False, ncclAsyncErr = ncclSuccess \<rparr>"
      "event_status s1 = (\<lambda>ev. cudaErrorNotReady)"
    by blast
  let ?s = "add_calls [EventBlock 1 (CurrentStream 0)] (s1\<lparr> clock := 501 \<rparr>)"
  have ic: "isCompleted work ?s = (Inr False, work)"
    using w s1
    by (simp add: isCompleted_def checkAndSetException_def checkForNcclError_def
        finishedGPUExecutionInternal_def add_calls_def Let_def)
  have t: "clock ?s - w_workStartTime work > w_opTimeout work"
    using w by (simp add: add_calls_def)
  note it = alltoall_work_timeout [OF a2a ic t w(2)]
  have sync: "synchronize [] work (s1\<lparr> clock := 501 \<rparr>) =
      (Some (Inl (UndefinedBehaviour ''store_->set through a null pointer'')), work,
       ncclCommAbort 0 ?s)"
    using w it(1) by (simp add: synchronize_def)
  have key: "getNcclAbortedCommStoreKey k \<noteq> ''0''" for k
    by (simp add: getNcclAbortedCommStoreKey_def kNCCLAbortedCommStoreKey_def)
  have "store (ncclCommAbort 0 ?s) (getNcclAbortedCommStoreKey k) = None" for k
    using s1 key [of k] by (simp add: add_calls_def)
  moreover have "aborted (comms (ncclCommAbort 0 ?s) 0)" by (rule aborted_ncclCommAbort)
  ultimately show ?thesis
    using a2a sync w by (simp add: ctor_example)
qed

theorem alltoall_work_timeout_publishes_nothing_witness:
  "\<exists>s0 work s1. ProcessGroupNCCL (Some ''1'') 0 2 500 example_world = Inr s0
     \<and> alltoall [example_tensor 0 3 0 [4], example_tensor 0 4 0 [4]]
                [example_tensor 0 1 0 [4], example_tensor 0 2 0 [4]] s0 = (Inr work, s1)
     \<and> fst (synchronize [] work (s1\<lparr> clock := 501 \<rparr>))
         = Some (Inl (UndefinedBehaviour ''store_->set through a null pointer''))
     \<and> store (snd (snd (synchronize [] work (s1\<lparr> clock := 501 \<rparr>))))
          (getNcclAbortedCommStoreKey (buildNcclUniqueIdStr (getNcclId 0 s1))) = None"
proof -
  let ?s0 = "example_world\<lparr> m_size := 2, m_opTimeout := 500, m_blockingWait := True \<rparr>"
  let ?outs = "[example_tensor 0 3 0 [4], example_tensor 0 4 0 [4]]"
  let ?ins = "[example_tensor 0 1 0 [4], example_tensor 0 2 0 [4]]"
  obtain res s1 where a: "alltoall ?outs ?ins ?s0 = (res, s1)"
    by (cases "alltoall ?outs ?ins ?s0") auto
  from alltoall_work_timeout_publishes_nothing a
  obtain work where res: "res = Inr work"
    by (cases res) (simp_all add: ctor_example)
  obtain r work' s2 where sy: "synchronize [] work (s1\<lparr> clock := 501 \<rparr>) = (r, work', s2)"
    by (cases "synchronize [] work (s1\<lparr> clock := 501 \<rparr>)") auto
  from alltoall_work_timeout_publishes_nothing a res sy
  have "r = Some (Inl (UndefinedBehaviour ''store_->set through a null pointer''))"
    "store s2 (getNcclAbortedCommStoreKey (buildNcclUniqueIdStr (getNcclId 0 s1))) = None"
    by (simp_all add: ctor_example)
  with a res sy show ?thesis
    by (intro exI [of _ ?s0] exI [of _ work] exI [of _ s1]) (simp add: ctor_example)
qed

end
